theory Spec2Isabelle
  imports Main
begin

section \<open>PPDB SQL schema generation (ppdbSqlSchema.py)\<close>

text \<open>
  A shallow embedding of \<^verbatim>\<open>src/python/lsst/dax/ppdb/ppdbSqlSchema.py\<close>: the
  Oracle DDL hooks \<^verbatim>\<open>_add_suffixes_tbl\<close> and \<^verbatim>\<open>_add_suffixes_idx\<close>, and the
  class \<^verbatim>\<open>PpdbSqlSchema\<close> with \<^verbatim>\<open>__init__\<close>, \<^verbatim>\<open>_makeTables\<close>,
  \<^verbatim>\<open>makeSchema\<close>, \<^verbatim>\<open>_tableColumns\<close>, \<^verbatim>\<open>_tableIndices\<close> and
  \<^verbatim>\<open>_getDoubleType\<close>. Python names that start with an underscore lose it, since an
  Isabelle name cannot start with one. Every \<^verbatim>\<open>raise\<close> of the source, and every
  exception of a Python operation the source performs (a missing dictionary key, the
  concatenation of a string with \<^verbatim>\<open>None\<close>), is a value \<open>Inl e\<close> of the result.
\<close>

subsection \<open>Errors\<close>

datatype error =
    TypeError string
  | KeyError string
  | InvalidRequestError string
  | ExecutionError string

subsection \<open>Physical column types\<close>

text \<open>
  The SQLAlchemy type objects the source names. \<open>MYSQL_DOUBLE b\<close> is
  \<^verbatim>\<open>sqlalchemy.dialects.mysql.DOUBLE(asdecimal=b)\<close>; \<open>DOUBLE_PRECISION m\<close> is the
  class \<^verbatim>\<open>DOUBLE_PRECISION\<close> imported from \<^verbatim>\<open>sqlalchemy.dialects.m\<close> (the
  PostgreSQL and the Oracle dialect modules each export a class of that name);
  \<open>SQLITE_REAL\<close> is \<^verbatim>\<open>sqlalchemy.dialects.sqlite.REAL\<close>; the others are the
  generic classes of \<^verbatim>\<open>sqlalchemy.types\<close>.
\<close>

datatype sa_type =
    MYSQL_DOUBLE bool
  | DOUBLE_PRECISION string
  | SQLITE_REAL
  | Float
  | TIMESTAMP
  | BigInteger
  | Integer
  | LargeBinary
  | SA_CHAR
  | Boolean

text \<open>\<^verbatim>\<open>_getDoubleType\<close> (lines 337-359), as a function of \<^verbatim>\<open>self._engine.name\<close>.\<close>

definition getDoubleType :: "string \<Rightarrow> error + sa_type" where
  "getDoubleType engine_name =
     (if engine_name = ''mysql'' then Inr (MYSQL_DOUBLE False)
      else if engine_name = ''postgresql'' then Inr (DOUBLE_PRECISION ''postgresql'')
      else if engine_name = ''oracle'' then Inr (DOUBLE_PRECISION ''oracle'')
      else if engine_name = ''sqlite'' then Inr SQLITE_REAL
      else Inl (TypeError (''cannot determine DOUBLE type, unexpected dialect: '' @ engine_name)))"

text \<open>
  The dictionary \<^verbatim>\<open>self._type_map\<close> that \<^verbatim>\<open>__init__\<close> builds (lines 156-165).
  Its first entry calls \<^verbatim>\<open>_getDoubleType\<close>, so building the dictionary fails when
  that call raises.
\<close>

definition make_type_map :: "string \<Rightarrow> error + (string \<rightharpoonup> sa_type)" where
  "make_type_map engine_name =
     (case getDoubleType engine_name of
        Inl e \<Rightarrow> Inl e
      | Inr dbl \<Rightarrow> Inr (map_of
          [(''DOUBLE'', dbl),
           (''FLOAT'', Float),
           (''DATETIME'', TIMESTAMP),
           (''BIGINT'', BigInteger),
           (''INTEGER'', Integer),
           (''INT'', Integer),
           (''TINYINT'', Integer),
           (''BLOB'', LargeBinary),
           (''CHAR'', SA_CHAR),
           (''BOOL'', Boolean)]))"

text \<open>The four dialect names that \<^verbatim>\<open>_getDoubleType\<close> recognises.\<close>

definition supported_dialects :: "string list" where
  "supported_dialects = [''mysql'', ''postgresql'', ''oracle'', ''sqlite'']"

text \<open>
  The lookup \<^verbatim>\<open>self._type_map[column.type]\<close> of \<^verbatim>\<open>_tableColumns\<close> (line 298) for a
  manager built on the given dialect: the type mapper's \<open>resolve\<close>. A token that is not
  a key of the dictionary raises \<^verbatim>\<open>KeyError\<close>.
\<close>

definition resolve :: "string \<Rightarrow> string \<Rightarrow> error + sa_type" where
  "resolve logical_type engine_name =
     (case make_type_map engine_name of
        Inl e \<Rightarrow> Inl e
      | Inr tm \<Rightarrow> (case tm logical_type of
                     None \<Rightarrow> Inl (KeyError logical_type)
                   | Some ty \<Rightarrow> Inr ty))"

subsection \<open>The logical catalog\<close>

text \<open>
  Modelled from the spec: the types of the catalog entries that \<^verbatim>\<open>self.tableSchemas\<close>
  holds. They are declared in \<^verbatim>\<open>ppdbBaseSchema.py\<close>, which is not among the sources;
  the functions below read the attributes \<^verbatim>\<open>name\<close>, \<^verbatim>\<open>type\<close>, \<^verbatim>\<open>nullable\<close>,
  \<^verbatim>\<open>default\<close> of a column, \<^verbatim>\<open>name\<close>, \<^verbatim>\<open>type\<close>, \<^verbatim>\<open>columns\<close> of an index and
  \<^verbatim>\<open>columns\<close>, \<^verbatim>\<open>indices\<close> of a table. A column's default is held as the text that
  \<^verbatim>\<open>str(column.default)\<close> gives, \<open>None\<close> when the default is \<^verbatim>\<open>None\<close>. An index name
  is optional (\<open>None\<close> is Python's \<^verbatim>\<open>None\<close>). An index type is the string the source
  compares with \<^verbatim>\<open>"INDEX"\<close>, \<^verbatim>\<open>"PRIMARY"\<close> and \<^verbatim>\<open>"UNIQUE"\<close>.
\<close>

record ColumnDef =
  cd_name :: string
  cd_type :: string
  cd_nullable :: bool
  cd_default :: "string option"

record IndexDef =
  ix_name :: "string option"
  ix_type :: string
  ix_columns :: "string list"

record TableDef =
  columns :: "ColumnDef list"
  indices :: "IndexDef list"

subsection \<open>The physical schema objects\<close>

text \<open>
  A \<^verbatim>\<open>sqlalchemy.Column\<close> as the source constructs it: a name, a type and the keyword
  arguments \<^verbatim>\<open>nullable\<close>, \<^verbatim>\<open>server_default\<close> and \<^verbatim>\<open>autoincrement\<close>. \<open>None\<close> for
  one of the last two says that the keyword was not passed.
\<close>

record Column =
  col_name :: string
  col_type :: sa_type
  nullable :: bool
  server_default :: "string option"
  autoincrement :: "bool option"

text \<open>
  The dictionary \<^verbatim>\<open>info\<close>. The key \<^verbatim>\<open>oracle_tablespace\<close> holds a name or \<^verbatim>\<open>None\<close>;
  \<open>oracle_iot = None\<close> says that the key \<^verbatim>\<open>oracle_iot\<close> is absent.
\<close>

record Info =
  oracle_tablespace :: "string option"
  oracle_iot :: "bool option"

text \<open>
  What is passed to \<^verbatim>\<open>Table(...)\<close> after the MetaData: columns,
  \<^verbatim>\<open>Index(name, *columns, info=info)\<close>, and \<^verbatim>\<open>PrimaryKeyConstraint(*columns)\<close> or
  \<^verbatim>\<open>UniqueConstraint(*columns)\<close> with an optional \<^verbatim>\<open>name\<close> keyword.
\<close>

datatype SchemaItem =
    ColumnItem Column
  | Index string "string list" Info
  | PrimaryKeyConstraint "string list" "string option"
  | UniqueConstraint "string list" "string option"

record Table =
  tbl_name :: string
  tbl_items :: "SchemaItem list"
  mysql_engine :: string
  tbl_info :: Info

subsection \<open>Configuration and manager state\<close>


text \<open>
  The attributes of a \<^verbatim>\<open>PpdbSqlSchema\<close> instance. \<open>metadata\<close> is the list of the
  tables registered in \<^verbatim>\<open>self._metadata\<close>, in the order of registration. The six
  attributes \<open>objects\<close> ... \<open>visits\<close> are the only table attributes the class has.
\<close>

record PpdbSqlSchema =
  engine_name :: string
  dia_object_index :: string
  dia_object_nightly :: bool
  prefix :: string
  tableSchemas :: "string \<rightharpoonup> TableDef"
  type_map :: "string \<rightharpoonup> sa_type"
  metadata :: "Table list"
  objects :: "Table option"
  objects_nightly :: "Table option"
  objects_last :: "Table option"
  sources :: "Table option"
  forcedSources :: "Table option"
  visits :: "Table option"

subsection \<open>The column builder\<close>

text \<open>
  Lines 284-288 of \<^verbatim>\<open>_tableColumns\<close>: the column set of the first index whose type is
  PRIMARY (the loop leaves at the first one), the empty set when there is none.
\<close>

fun pkey_columns :: "IndexDef list \<Rightarrow> string set" where
  "pkey_columns [] = {}"
| "pkey_columns (index # rest) =
     (if ix_type index = ''PRIMARY'' then set (ix_columns index) else pkey_columns rest)"

text \<open>Lines 293-299: the Column built for one catalog column, given its resolved type.\<close>

definition make_column :: "string set \<Rightarrow> ColumnDef \<Rightarrow> sa_type \<Rightarrow> Column" where
  "make_column pkey column ctype =
     \<lparr> col_name = cd_name column,
       col_type = ctype,
       nullable = cd_nullable column,
       server_default = cd_default column,
       autoincrement = (if cd_name column \<in> pkey then Some False else None) \<rparr>"

text \<open>
  Lines 291-299: the loop over the columns. The lookup in the type map raises
  \<^verbatim>\<open>KeyError\<close> at the first column whose type token is not a key.
\<close>

fun column_defs :: "(string \<rightharpoonup> sa_type) \<Rightarrow> string set \<Rightarrow> ColumnDef list \<Rightarrow> error + Column list" where
  "column_defs tm pkey [] = Inr []"
| "column_defs tm pkey (column # rest) =
     (case tm (cd_type column) of
        None \<Rightarrow> Inl (KeyError (cd_type column))
      | Some ctype \<Rightarrow>
          (case column_defs tm pkey rest of
             Inl e \<Rightarrow> Inl e
           | Inr cols \<Rightarrow> Inr (make_column pkey column ctype # cols)))"

definition tableColumns :: "PpdbSqlSchema \<Rightarrow> string \<Rightarrow> error + Column list" where
  "tableColumns self table_name =
     (case tableSchemas self table_name of
        None \<Rightarrow> Inl (KeyError table_name)
      | Some table_schema \<Rightarrow>
          column_defs (type_map self) (pkey_columns (indices table_schema))
            (columns table_schema))"

subsection \<open>The index and constraint builder\<close>

text \<open>
  Lines 327-329: the keyword \<^verbatim>\<open>name\<close> of a constraint, passed only when
  \<^verbatim>\<open>index.name\<close> is true (neither \<^verbatim>\<open>None\<close> nor the empty string).
\<close>

definition constraint_name :: "string \<Rightarrow> string option \<Rightarrow> string option" where
  "constraint_name pfx name =
     (case name of
        None \<Rightarrow> None
      | Some n \<Rightarrow> (if n = [] then None else Some (pfx @ n)))"

text \<open>
  Lines 322-333: the loop over the index descriptors. For the type INDEX the source
  evaluates \<^verbatim>\<open>self._prefix+index.name\<close> whatever the name is, which raises
  \<^verbatim>\<open>TypeError\<close> when the name is \<^verbatim>\<open>None\<close>. A descriptor whose type is none of
  INDEX, PRIMARY and UNIQUE reaches the end of the loop body with nothing appended.
\<close>

fun index_defs :: "string \<Rightarrow> Info \<Rightarrow> IndexDef list \<Rightarrow> error + SchemaItem list" where
  "index_defs pfx info [] = Inr []"
| "index_defs pfx info (index # rest) =
     (if ix_type index = ''INDEX'' then
        (case ix_name index of
           None \<Rightarrow> Inl (TypeError ''can only concatenate str (not NoneType) to str'')
         | Some n \<Rightarrow>
             (case index_defs pfx info rest of
                Inl e \<Rightarrow> Inl e
              | Inr defs \<Rightarrow> Inr (Index (pfx @ n) (ix_columns index) info # defs)))
      else if ix_type index = ''PRIMARY'' then
        (case index_defs pfx info rest of
           Inl e \<Rightarrow> Inl e
         | Inr defs \<Rightarrow>
             Inr (PrimaryKeyConstraint (ix_columns index)
                    (constraint_name pfx (ix_name index)) # defs))
      else if ix_type index = ''UNIQUE'' then
        (case index_defs pfx info rest of
           Inl e \<Rightarrow> Inl e
         | Inr defs \<Rightarrow>
             Inr (UniqueConstraint (ix_columns index)
                    (constraint_name pfx (ix_name index)) # defs))
      else index_defs pfx info rest)"

definition tableIndices :: "PpdbSqlSchema \<Rightarrow> string \<Rightarrow> Info \<Rightarrow> error + SchemaItem list" where
  "tableIndices self table_name info =
     (case tableSchemas self table_name of
        None \<Rightarrow> Inl (KeyError table_name)
      | Some table_schema \<Rightarrow> index_defs (prefix self) info (indices table_schema))"

text \<open>
  What one reads off a schema item: which kind of object it is, the columns it lists,
  and the name it carries, if any. A column carries no generated name.
\<close>

fun item_kind :: "SchemaItem \<Rightarrow> string" where
  "item_kind (ColumnItem c) = ''COLUMN''"
| "item_kind (Index n cs i) = ''INDEX''"
| "item_kind (PrimaryKeyConstraint cs n) = ''PRIMARY''"
| "item_kind (UniqueConstraint cs n) = ''UNIQUE''"

fun item_columns :: "SchemaItem \<Rightarrow> string list" where
  "item_columns (ColumnItem c) = [col_name c]"
| "item_columns (Index n cs i) = cs"
| "item_columns (PrimaryKeyConstraint cs n) = cs"
| "item_columns (UniqueConstraint cs n) = cs"


text \<open>The index types for which the loop of \<^verbatim>\<open>_tableIndices\<close> has a branch.\<close>

definition recognized :: "IndexDef \<Rightarrow> bool" where
  "recognized index = (ix_type index \<in> {''INDEX'', ''PRIMARY'', ''UNIQUE''})"

subsection \<open>The table assembler\<close>

text \<open>
  The call \<^verbatim>\<open>Table(name, self._metadata, *items, mysql_engine=..., info=...)\<close>: the
  new table is registered in the MetaData and returned. SQLAlchemy raises
  \<^verbatim>\<open>InvalidRequestError\<close> when a table of that name is already registered and items are
  passed; the model raises it for every repeated name. Neither \<^verbatim>\<open>__init__\<close> (a new
  MetaData) nor \<^verbatim>\<open>makeSchema\<close> (a cleared one) reaches that case.
\<close>

definition new_Table ::
  "string \<Rightarrow> Table list \<Rightarrow> SchemaItem list \<Rightarrow> string \<Rightarrow> Info \<Rightarrow> error + Table \<times> Table list" where
  "new_Table name md its engine info =
     (if name \<in> tbl_name ` set md then Inl (InvalidRequestError name)
      else
        (let table = \<lparr> tbl_name = name, tbl_items = its, mysql_engine = engine, tbl_info = info \<rparr>
         in Inr (table, md @ [table])))"

text \<open>
  Lines 185-194: the table DiaObject. The constraints are computed first, from
  DiaObjectIndexHtmFirst in the mode pix\_id\_iov and from DiaObject otherwise; the
  columns are those of DiaObject in every mode.
\<close>

definition make_objects :: "string \<Rightarrow> Info \<Rightarrow> PpdbSqlSchema \<Rightarrow> error + PpdbSqlSchema" where
  "make_objects engine info self =
     (case (if dia_object_index self = ''pix_id_iov''
            then tableIndices self ''DiaObjectIndexHtmFirst'' info
            else tableIndices self ''DiaObject'' info) of
        Inl e \<Rightarrow> Inl e
      | Inr constraints \<Rightarrow>
          (case tableColumns self ''DiaObject'' of
             Inl e \<Rightarrow> Inl e
           | Inr cols \<Rightarrow>
               (case new_Table (prefix self @ ''DiaObject'') (metadata self)
                       (map ColumnItem cols @ constraints) engine info of
                  Inl e \<Rightarrow> Inl e
                | Inr (table, md) \<Rightarrow> Inr (self\<lparr> metadata := md, objects := Some table \<rparr>))))"

text \<open>Lines 196-202: the table DiaObjectNightly, only when the nightly flag is set.\<close>

definition make_objects_nightly :: "string \<Rightarrow> Info \<Rightarrow> PpdbSqlSchema \<Rightarrow> error + PpdbSqlSchema" where
  "make_objects_nightly engine info self =
     (if dia_object_nightly self then
        (case tableColumns self ''DiaObject'' of
           Inl e \<Rightarrow> Inl e
         | Inr cols \<Rightarrow>
             (case new_Table (prefix self @ ''DiaObjectNightly'') (metadata self)
                     (map ColumnItem cols) engine info of
                Inl e \<Rightarrow> Inl e
              | Inr (table, md) \<Rightarrow>
                  Inr (self\<lparr> metadata := md, objects_nightly := Some table \<rparr>)))
      else Inr self)"

text \<open>
  Lines 204-213: the table DiaObjectLast, only in the mode last\_object\_table. Its
  indices get \<^verbatim>\<open>info\<close>; the table gets the copy \<^verbatim>\<open>info2\<close> with the key
  \<^verbatim>\<open>oracle_iot\<close> added.
\<close>

definition make_objects_last ::
  "string \<Rightarrow> Info \<Rightarrow> bool \<Rightarrow> PpdbSqlSchema \<Rightarrow> error + PpdbSqlSchema" where
  "make_objects_last engine info iot self =
     (if dia_object_index self = ''last_object_table'' then
        (let info2 = info\<lparr> oracle_iot := Some iot \<rparr> in
         case tableColumns self ''DiaObjectLast'' of
           Inl e \<Rightarrow> Inl e
         | Inr cols \<Rightarrow>
             (case tableIndices self ''DiaObjectLast'' info of
                Inl e \<Rightarrow> Inl e
              | Inr idx \<Rightarrow>
                  (case new_Table (prefix self @ ''DiaObjectLast'') (metadata self)
                          (map ColumnItem cols @ idx) engine info2 of
                     Inl e \<Rightarrow> Inl e
                   | Inr (table, md) \<Rightarrow>
                       Inr (self\<lparr> metadata := md, objects_last := Some table \<rparr>))))
      else Inr self)"

text \<open>
  Lines 216-225: the loop over the other catalog tables. Every table is registered;
  only DiaSource and DiaForcedSource are also stored in an attribute.
\<close>

fun make_other_tables ::
  "string \<Rightarrow> Info \<Rightarrow> string list \<Rightarrow> PpdbSqlSchema \<Rightarrow> error + PpdbSqlSchema" where
  "make_other_tables engine info [] self = Inr self"
| "make_other_tables engine info (table_name # rest) self =
     (case tableColumns self table_name of
        Inl e \<Rightarrow> Inl e
      | Inr cols \<Rightarrow>
          (case tableIndices self table_name info of
             Inl e \<Rightarrow> Inl e
           | Inr idx \<Rightarrow>
               (case new_Table (prefix self @ table_name) (metadata self)
                       (map ColumnItem cols @ idx) engine info of
                  Inl e \<Rightarrow> Inl e
                | Inr (table, md) \<Rightarrow>
                    make_other_tables engine info rest
                      (if table_name = ''DiaSource''
                       then self\<lparr> metadata := md, sources := Some table \<rparr>
                       else if table_name = ''DiaForcedSource''
                       then self\<lparr> metadata := md, forcedSources := Some table \<rparr>
                       else self\<lparr> metadata := md \<rparr>))))"

text \<open>Lines 228-235: the fixed table PpdbProtoVisits.\<close>

definition visits_items :: "string \<Rightarrow> Info \<Rightarrow> SchemaItem list" where
  "visits_items pfx info =
     [ColumnItem \<lparr> col_name = ''visitId'', col_type = BigInteger, nullable = False,
                   server_default = None, autoincrement = None \<rparr>,
      ColumnItem \<lparr> col_name = ''visitTime'', col_type = TIMESTAMP, nullable = False,
                   server_default = None, autoincrement = None \<rparr>,
      PrimaryKeyConstraint [''visitId''] (Some (pfx @ ''PK_PpdbProtoVisits'')),
      Index (pfx @ ''IDX_PpdbProtoVisits_vTime'') [''visitTime''] info]"

definition make_visits :: "string \<Rightarrow> Info \<Rightarrow> PpdbSqlSchema \<Rightarrow> error + PpdbSqlSchema" where
  "make_visits engine info self =
     (case new_Table (prefix self @ ''PpdbProtoVisits'') (metadata self)
             (visits_items (prefix self) info) engine info of
        Inl e \<Rightarrow> Inl e
      | Inr (table, md) \<Rightarrow> Inr (self\<lparr> metadata := md, visits := Some table \<rparr>))"

text \<open>\<^verbatim>\<open>_makeTables\<close> (lines 170-235).\<close>

definition other_table_names :: "string list" where
  "other_table_names = [''DiaSource'', ''SSObject'', ''DiaForcedSource'', ''DiaObject_To_Object_Match'']"

definition makeTables ::
  "string \<Rightarrow> string option \<Rightarrow> bool \<Rightarrow> PpdbSqlSchema \<Rightarrow> error + PpdbSqlSchema" where
  "makeTables engine tablespace iot self =
     (let info = \<lparr> oracle_tablespace = tablespace, oracle_iot = None \<rparr> in
      case make_objects engine info self of
        Inl e \<Rightarrow> Inl e
      | Inr s1 \<Rightarrow>
          (case make_objects_nightly engine info s1 of
             Inl e \<Rightarrow> Inl e
           | Inr s2 \<Rightarrow>
               (case make_objects_last engine info iot s2 of
                  Inl e \<Rightarrow> Inl e
                | Inr s3 \<Rightarrow>
                    (case make_other_tables engine info other_table_names s3 of
                       Inl e \<Rightarrow> Inl e
                     | Inr s4 \<Rightarrow> make_visits engine info s4))))"


subsection \<open>Creating and dropping the tables\<close>

text \<open>
  The database behind the engine: the names of the tables it holds, and the DDL
  statements executed so far. Dropping a table that does not exist and creating one
  that exists are the statements a server rejects.
\<close>

datatype ddl = DROP_TABLE string | CREATE_TABLE Table

record Database =
  existing :: "string set"
  executed :: "ddl list"

fun execute :: "ddl \<Rightarrow> Database \<Rightarrow> error + Database" where
  "execute (DROP_TABLE name) db =
     (if name \<in> existing db
      then Inr (db\<lparr> existing := existing db - {name},
                    executed := executed db @ [DROP_TABLE name] \<rparr>)
      else Inl (ExecutionError name))"
| "execute (CREATE_TABLE table) db =
     (if tbl_name table \<in> existing db
      then Inl (ExecutionError (tbl_name table))
      else Inr (db\<lparr> existing := insert (tbl_name table) (existing db),
                    executed := executed db @ [CREATE_TABLE table] \<rparr>))"

text \<open>
  SQLAlchemy's \<^verbatim>\<open>MetaData.drop_all()\<close> and \<^verbatim>\<open>MetaData.create_all()\<close>, called as the
  source calls them, with no argument, so with the library's default
  \<^verbatim>\<open>checkfirst=True\<close>: a table is dropped only when the database has it, and created
  only when the database does not have it. The library visits the tables in an order
  of its own; here they are visited in the order of the list given, and the theorems
  below say nothing that depends on that order. Failures of the connection itself are
  not part of the model.
\<close>

fun drop_tables :: "Table list \<Rightarrow> Database \<Rightarrow> error + Database" where
  "drop_tables [] db = Inr db"
| "drop_tables (table # rest) db =
     (if tbl_name table \<in> existing db
      then (case execute (DROP_TABLE (tbl_name table)) db of
              Inl e \<Rightarrow> Inl e
            | Inr db' \<Rightarrow> drop_tables rest db')
      else drop_tables rest db)"

fun create_tables :: "Table list \<Rightarrow> Database \<Rightarrow> error + Database" where
  "create_tables [] db = Inr db"
| "create_tables (table # rest) db =
     (if tbl_name table \<notin> existing db
      then (case execute (CREATE_TABLE table) db of
              Inl e \<Rightarrow> Inl e
            | Inr db' \<Rightarrow> create_tables rest db')
      else create_tables rest db)"

definition drop_all :: "Table list \<Rightarrow> Database \<Rightarrow> error + Database" where
  "drop_all md db = drop_tables (rev md) db"

definition create_all :: "Table list \<Rightarrow> Database \<Rightarrow> error + Database" where
  "create_all md db = create_tables md db"

text \<open>
  \<^verbatim>\<open>makeSchema\<close> (lines 237-265): clear the MetaData, build the tables again with the
  options of this call, drop all tables when asked to, create all tables. The
  parameter \<^verbatim>\<open>drop\<close> is \<open>drop_first\<close> here.
\<close>

definition makeSchema ::
  "bool \<Rightarrow> string \<Rightarrow> string option \<Rightarrow> bool \<Rightarrow> PpdbSqlSchema \<times> Database
     \<Rightarrow> error + PpdbSqlSchema \<times> Database" where
  "makeSchema drop_first engine tablespace iot state =
     (case state of (self, db) \<Rightarrow>
        (case makeTables engine tablespace iot (self\<lparr> metadata := [] \<rparr>) of
           Inl e \<Rightarrow> Inl e
         | Inr self' \<Rightarrow>
             (case (if drop_first then drop_all (metadata self') db else Inr db) of
                Inl e \<Rightarrow> Inl e
              | Inr db1 \<Rightarrow>
                  (case create_all (metadata self') db1 of
                     Inl e \<Rightarrow> Inl e
                   | Inr db2 \<Rightarrow> Inr (self', db2)))))"

text \<open>The names of the tables that a list of executed statements creates, in order.\<close>

fun created_names :: "ddl list \<Rightarrow> string list" where
  "created_names [] = []"
| "created_names (CREATE_TABLE table # rest) = tbl_name table # created_names rest"
| "created_names (DROP_TABLE name # rest) = created_names rest"

subsection \<open>The Oracle DDL hooks\<close>

text \<open>
  \<^verbatim>\<open>_add_suffixes_tbl\<close> (lines 40-65). \<open>text0\<close> is what
  \<^verbatim>\<open>compiler.visit_create_table(element, **kw)\<close> returns, the generic DDL text;
  \<open>info\<close> is \<^verbatim>\<open>element.element.info\<close>. The two \<^verbatim>\<open>text += ...\<close> are the two steps.
  A tablespace is used when \<^verbatim>\<open>info.get("oracle_tablespace")\<close> is true, that is neither
  \<^verbatim>\<open>None\<close> nor the empty string; an absent key \<^verbatim>\<open>oracle_iot\<close> reads as false.
\<close>

definition add_suffixes_tbl :: "string \<Rightarrow> Info \<Rightarrow> string" where
  "add_suffixes_tbl text0 info =
     (let tablespace = oracle_tablespace info;
          iot = (case oracle_iot info of None \<Rightarrow> False | Some b \<Rightarrow> b);
          text1 = (if iot then text0 @ '' ORGANIZATION INDEX'' else text0);
          text2 = (case tablespace of
                     None \<Rightarrow> text1
                   | Some ts \<Rightarrow> (if ts = [] then text1 else text1 @ '' TABLESPACE '' @ ts))
      in text2)"

text \<open>\<^verbatim>\<open>_add_suffixes_idx\<close> (lines 68-88), with \<open>text0\<close> the generic CREATE INDEX text.\<close>

definition add_suffixes_idx :: "string \<Rightarrow> Info \<Rightarrow> string" where
  "add_suffixes_idx text0 info =
     (let tablespace = oracle_tablespace info;
          text1 = (case tablespace of
                     None \<Rightarrow> text0
                   | Some ts \<Rightarrow> (if ts = [] then text0 else text0 @ '' TABLESPACE '' @ ts))
      in text1)"

text \<open>
  The registration \<^verbatim>\<open>@compiles(CreateTable, "oracle")\<close> and
  \<^verbatim>\<open>@compiles(CreateIndex, "oracle")\<close>: SQLAlchemy calls the hook when the statement
  is compiled for the dialect named oracle, and its own generic visitor for every
  other dialect.
\<close>

definition compile_CreateTable :: "string \<Rightarrow> string \<Rightarrow> Info \<Rightarrow> string" where
  "compile_CreateTable dialect text0 info =
     (if dialect = ''oracle'' then add_suffixes_tbl text0 info else text0)"

definition compile_CreateIndex :: "string \<Rightarrow> string \<Rightarrow> Info \<Rightarrow> string" where
  "compile_CreateIndex dialect text0 info =
     (if dialect = ''oracle'' then add_suffixes_idx text0 info else text0)"

subsection \<open>The table of a catalog entry\<close>

text \<open>
  What the loop of lines 216-225 passes to \<^verbatim>\<open>Table(...)\<close> for a catalog name: the
  columns of the entry followed by its indices, under the prefixed name. The lemmas
  about \<^verbatim>\<open>_makeTables\<close> are stated with it.
\<close>

definition catalog_table :: "PpdbSqlSchema \<Rightarrow> string \<Rightarrow> string \<Rightarrow> Info \<Rightarrow> error + Table" where
  "catalog_table self table_name engine info =
     (case tableColumns self table_name of
        Inl e \<Rightarrow> Inl e
      | Inr cols \<Rightarrow>
          (case tableIndices self table_name info of
             Inl e \<Rightarrow> Inl e
           | Inr idx \<Rightarrow>
               Inr \<lparr> tbl_name = prefix self @ table_name,
                     tbl_items = map ColumnItem cols @ idx,
                     mysql_engine = engine,
                     tbl_info = info \<rparr>))"

text \<open>
  The attributes that \<^verbatim>\<open>_makeTables\<close> reads and never assigns: the engine, the
  three configuration values, the catalog and the type map.
\<close>

definition same_env :: "PpdbSqlSchema \<Rightarrow> PpdbSqlSchema \<Rightarrow> bool" where
  "same_env s s' \<longleftrightarrow>
     engine_name s' = engine_name s
   \<and> dia_object_index s' = dia_object_index s
   \<and> dia_object_nightly s' = dia_object_nightly s
   \<and> prefix s' = prefix s
   \<and> tableSchemas s' = tableSchemas s
   \<and> type_map s' = type_map s"


subsection \<open>Names before the prefix\<close>

text \<open>
  The base names of the tables \<^verbatim>\<open>_makeTables\<close> registers, in the order of
  registration, for an indexing mode and a nightly flag.
\<close>

definition registered_bases :: "string \<Rightarrow> bool \<Rightarrow> string list" where
  "registered_bases index_mode nightly =
     [''DiaObject'']
     @ (if nightly then [''DiaObjectNightly''] else [])
     @ (if index_mode = ''last_object_table'' then [''DiaObjectLast''] else [])
     @ [''DiaSource'', ''SSObject'', ''DiaForcedSource'', ''DiaObject_To_Object_Match'',
        ''PpdbProtoVisits'']"




subsection \<open>A small catalog\<close>

text \<open>
  A catalog with the seven entries \<^verbatim>\<open>_makeTables\<close> may look up, small enough to
  run the functions on. The entry DiaObjectIndexHtmFirst holds the primary key that
  starts with the pixel column.
\<close>

definition example_DiaObject :: TableDef where
  "example_DiaObject =
     \<lparr> columns =
         [\<lparr> cd_name = ''diaObjectId'', cd_type = ''BIGINT'', cd_nullable = False, cd_default = None \<rparr>,
          \<lparr> cd_name = ''pixelId'', cd_type = ''BIGINT'', cd_nullable = False, cd_default = None \<rparr>,
          \<lparr> cd_name = ''ra'', cd_type = ''DOUBLE'', cd_nullable = True, cd_default = Some ''0'' \<rparr>],
       indices =
         [\<lparr> ix_name = Some ''PK_DiaObject'', ix_type = ''PRIMARY'', ix_columns = [''diaObjectId''] \<rparr>,
          \<lparr> ix_name = Some ''IDX_DiaObject_pixelId'', ix_type = ''INDEX'', ix_columns = [''pixelId''] \<rparr>] \<rparr>"

definition example_DiaObjectIndexHtmFirst :: TableDef where
  "example_DiaObjectIndexHtmFirst =
     \<lparr> columns = [],
       indices =
         [\<lparr> ix_name = Some ''PK_DiaObject'', ix_type = ''PRIMARY'',
            ix_columns = [''pixelId'', ''diaObjectId''] \<rparr>] \<rparr>"

definition example_DiaObjectLast :: TableDef where
  "example_DiaObjectLast =
     \<lparr> columns =
         [\<lparr> cd_name = ''diaObjectId'', cd_type = ''BIGINT'', cd_nullable = False, cd_default = None \<rparr>],
       indices =
         [\<lparr> ix_name = Some ''PK_DiaObjectLast'', ix_type = ''PRIMARY'', ix_columns = [''diaObjectId''] \<rparr>] \<rparr>"

definition example_DiaSource :: TableDef where
  "example_DiaSource =
     \<lparr> columns =
         [\<lparr> cd_name = ''diaSourceId'', cd_type = ''BIGINT'', cd_nullable = False, cd_default = None \<rparr>],
       indices =
         [\<lparr> ix_name = None, ix_type = ''PRIMARY'', ix_columns = [''diaSourceId''] \<rparr>,
          \<lparr> ix_name = Some ''FK_ignored'', ix_type = ''FOREIGN'', ix_columns = [''diaSourceId''] \<rparr>] \<rparr>"

definition example_plain :: TableDef where
  "example_plain =
     \<lparr> columns =
         [\<lparr> cd_name = ''id'', cd_type = ''INT'', cd_nullable = False, cd_default = None \<rparr>],
       indices = [] \<rparr>"

definition example_schemas :: "string \<rightharpoonup> TableDef" where
  "example_schemas = map_of
     [(''DiaObject'', example_DiaObject),
      (''DiaObjectIndexHtmFirst'', example_DiaObjectIndexHtmFirst),
      (''DiaObjectLast'', example_DiaObjectLast),
      (''DiaSource'', example_DiaSource),
      (''SSObject'', example_plain),
      (''DiaForcedSource'', example_plain),
      (''DiaObject_To_Object_Match'', example_plain)]"


definition example_self :: PpdbSqlSchema where
  "example_self =
     \<lparr> engine_name = ''sqlite'',
       dia_object_index = ''baseline'',
       dia_object_nightly = False,
       prefix = ''pp_'',
       tableSchemas = example_schemas,
       type_map = map_of [(''DOUBLE'', SQLITE_REAL), (''BIGINT'', BigInteger), (''INT'', Integer)],
       metadata = [],
       objects = None,
       objects_nightly = None,
       objects_last = None,
       sources = None,
       forcedSources = None,
       visits = None \<rparr>"

section \<open>The type mapper\<close>

lemma getDoubleType_supported:
  "getDoubleType ''mysql'' = Inr (MYSQL_DOUBLE False)"
  "getDoubleType ''postgresql'' = Inr (DOUBLE_PRECISION ''postgresql'')"
  "getDoubleType ''oracle'' = Inr (DOUBLE_PRECISION ''oracle'')"
  "getDoubleType ''sqlite'' = Inr SQLITE_REAL"
  by (simp_all add: getDoubleType_def)

lemma getDoubleType_unsupported:
  "d \<notin> set supported_dialects \<Longrightarrow>
     getDoubleType d =
       Inl (TypeError (''cannot determine DOUBLE type, unexpected dialect: '' @ d))"
  by (simp add: getDoubleType_def supported_dialects_def)

lemma getDoubleType_Inr_iff:
  "(\<exists>ty. getDoubleType d = Inr ty) \<longleftrightarrow> d \<in> set supported_dialects"
  by (auto simp add: getDoubleType_def supported_dialects_def)

text \<open>
  C2. Resolving the logical type DOUBLE gives \<^verbatim>\<open>DOUBLE(asdecimal=False)\<close> of the
  MySQL dialect for mysql, the \<^verbatim>\<open>DOUBLE_PRECISION\<close> class of the dialect's own module
  for postgresql and for oracle, and the SQLite \<^verbatim>\<open>REAL\<close> for sqlite; the four
  results are pairwise different objects. For each of these four dialects the call
  returns a type and never raises, and for every other dialect name it raises the
  \<^verbatim>\<open>TypeError\<close> whose message ends with that name. The same holds for the lookup of
  the token DOUBLE in the type map of a manager built on the dialect.
\<close>

theorem C2_double_type_per_dialect:
  "getDoubleType ''mysql'' = Inr (MYSQL_DOUBLE False)
   \<and> getDoubleType ''postgresql'' = Inr (DOUBLE_PRECISION ''postgresql'')
   \<and> getDoubleType ''oracle'' = Inr (DOUBLE_PRECISION ''oracle'')
   \<and> getDoubleType ''sqlite'' = Inr SQLITE_REAL
   \<and> distinct (map getDoubleType supported_dialects)
   \<and> (\<forall>d \<in> set supported_dialects. \<exists>ty. getDoubleType d = Inr ty)
   \<and> (\<forall>d. d \<notin> set supported_dialects \<longrightarrow>
          getDoubleType d =
            Inl (TypeError (''cannot determine DOUBLE type, unexpected dialect: '' @ d)))
   \<and> (\<forall>d. resolve ''DOUBLE'' d = getDoubleType d)"
proof -
  have four: "distinct (map getDoubleType supported_dialects)"
    by (simp add: supported_dialects_def getDoubleType_def)
  have ok: "\<forall>d \<in> set supported_dialects. \<exists>ty. getDoubleType d = Inr ty"
    using getDoubleType_Inr_iff by blast
  have bad: "\<forall>d. d \<notin> set supported_dialects \<longrightarrow>
          getDoubleType d =
            Inl (TypeError (''cannot determine DOUBLE type, unexpected dialect: '' @ d))"
    using getDoubleType_unsupported by blast
  have res: "\<forall>d. resolve ''DOUBLE'' d = getDoubleType d"
    by (simp add: resolve_def make_type_map_def split: sum.splits)
  from four ok bad res show ?thesis
    by (simp only: getDoubleType_supported simp_thms)
qed

theorem C2_double_type_per_dialect_witness:
  "getDoubleType ''mssql'' =
     Inl (TypeError ''cannot determine DOUBLE type, unexpected dialect: mssql'')
   \<and> (\<exists>ty. getDoubleType ''oracle'' = Inr ty)
   \<and> resolve ''DOUBLE'' ''sqlite'' = Inr SQLITE_REAL"
proof -
  have out: "''mssql'' \<notin> set supported_dialects"
    by (simp add: supported_dialects_def)
  have inn: "''oracle'' \<in> set supported_dialects"
    by (simp add: supported_dialects_def)
  from C2_double_type_per_dialect out inn show ?thesis
    by (metis append.simps(1) append.simps(2))
qed

lemma make_type_map_supported:
  "d \<in> set supported_dialects \<Longrightarrow>
     \<exists>dbl. getDoubleType d = Inr dbl \<and> make_type_map d = Inr (map_of
          [(''DOUBLE'', dbl),
           (''FLOAT'', Float),
           (''DATETIME'', TIMESTAMP),
           (''BIGINT'', BigInteger),
           (''INTEGER'', Integer),
           (''INT'', Integer),
           (''TINYINT'', Integer),
           (''BLOB'', LargeBinary),
           (''CHAR'', SA_CHAR),
           (''BOOL'', Boolean)])"
  using getDoubleType_Inr_iff [of d] by (auto simp add: make_type_map_def)

lemma resolve_static:
  assumes "d \<in> set supported_dialects" and "t \<noteq> ''DOUBLE''"
  shows "resolve t d =
     (case map_of
          [(''FLOAT'', Float),
           (''DATETIME'', TIMESTAMP),
           (''BIGINT'', BigInteger),
           (''INTEGER'', Integer),
           (''INT'', Integer),
           (''TINYINT'', Integer),
           (''BLOB'', LargeBinary),
           (''CHAR'', SA_CHAR),
           (''BOOL'', Boolean)] t of None \<Rightarrow> Inl (KeyError t) | Some ty \<Rightarrow> Inr ty)"
proof -
  from make_type_map_supported [OF assms(1)] obtain dbl where
    "make_type_map d = Inr (map_of
          [(''DOUBLE'', dbl),
           (''FLOAT'', Float),
           (''DATETIME'', TIMESTAMP),
           (''BIGINT'', BigInteger),
           (''INTEGER'', Integer),
           (''INT'', Integer),
           (''TINYINT'', Integer),
           (''BLOB'', LargeBinary),
           (''CHAR'', SA_CHAR),
           (''BOOL'', Boolean)])" by blast
  with assms(2) show ?thesis
    by (simp add: resolve_def)
qed

text \<open>
  C8. On each of the four supported dialects the tokens FLOAT, DATETIME, BIGINT,
  INTEGER, INT, TINYINT, BLOB, CHAR and BOOL resolve to one fixed type each, and any
  token other than DOUBLE resolves to the same result on any two supported dialects
  (for a token that is not a key, the same \<^verbatim>\<open>KeyError\<close>).
\<close>

theorem C8_static_types_same_for_all_dialects:
  "(\<forall>d \<in> set supported_dialects.
      resolve ''FLOAT'' d = Inr Float
    \<and> resolve ''DATETIME'' d = Inr TIMESTAMP
    \<and> resolve ''BIGINT'' d = Inr BigInteger
    \<and> resolve ''INTEGER'' d = Inr Integer
    \<and> resolve ''INT'' d = Inr Integer
    \<and> resolve ''TINYINT'' d = Inr Integer
    \<and> resolve ''BLOB'' d = Inr LargeBinary
    \<and> resolve ''CHAR'' d = Inr SA_CHAR
    \<and> resolve ''BOOL'' d = Inr Boolean)
   \<and> (\<forall>d1 \<in> set supported_dialects. \<forall>d2 \<in> set supported_dialects. \<forall>t.
         t \<noteq> ''DOUBLE'' \<longrightarrow> resolve t d1 = resolve t d2)"
proof (intro conjI ballI allI impI)
  fix d1 d2 t
  assume "d1 \<in> set supported_dialects" "d2 \<in> set supported_dialects" "t \<noteq> ''DOUBLE''"
  then show "resolve t d1 = resolve t d2"
    by (simp add: resolve_static)
qed (simp_all add: resolve_static)

theorem C8_static_types_same_for_all_dialects_witness:
  "resolve ''BIGINT'' ''mysql'' = Inr BigInteger
   \<and> resolve ''BIGINT'' ''mysql'' = resolve ''BIGINT'' ''oracle''
   \<and> resolve ''SMALLINT'' ''sqlite'' = resolve ''SMALLINT'' ''postgresql''"
proof -
  have m: "''mysql'' \<in> set supported_dialects" and o: "''oracle'' \<in> set supported_dialects"
    and s: "''sqlite'' \<in> set supported_dialects" and p: "''postgresql'' \<in> set supported_dialects"
    by (simp_all add: supported_dialects_def)
  note fixed = conjunct1 [OF C8_static_types_same_for_all_dialects]
  note same = conjunct2 [OF C8_static_types_same_for_all_dialects]
  have a: "resolve ''BIGINT'' ''mysql'' = Inr BigInteger"
    using bspec [OF fixed m] by simp
  have b: "resolve ''BIGINT'' ''mysql'' = resolve ''BIGINT'' ''oracle''"
    using spec [OF bspec [OF bspec [OF same m] o], of "''BIGINT''"] by simp
  have c: "resolve ''SMALLINT'' ''sqlite'' = resolve ''SMALLINT'' ''postgresql''"
    using spec [OF bspec [OF bspec [OF same s] p], of "''SMALLINT''"] by simp
  from a b c show ?thesis by simp
qed

section \<open>The Oracle DDL hooks\<close>

text \<open>
  C4. Compiling a CREATE TABLE for the dialect oracle gives the generic text followed
  by \<^verbatim>\<open> ORGANIZATION INDEX\<close> exactly when the table's info asks for an
  index-organized table, and then by \<^verbatim>\<open> TABLESPACE name\<close> exactly when the info
  names a (non-empty) tablespace; compiling a CREATE INDEX for oracle appends the
  tablespace clause only; for every other dialect the generic text is returned as it is.
\<close>

theorem C4_oracle_ddl_suffixes:
  "compile_CreateTable dialect text0 info =
     (if dialect = ''oracle''
      then text0
           @ (if oracle_iot info = Some True then '' ORGANIZATION INDEX'' else [])
           @ (case oracle_tablespace info of
                None \<Rightarrow> []
              | Some ts \<Rightarrow> (if ts = [] then [] else '' TABLESPACE '' @ ts))
      else text0)
   \<and> compile_CreateIndex dialect text0 info =
     (if dialect = ''oracle''
      then text0
           @ (case oracle_tablespace info of
                None \<Rightarrow> []
              | Some ts \<Rightarrow> (if ts = [] then [] else '' TABLESPACE '' @ ts))
      else text0)"
  by (simp add: compile_CreateTable_def compile_CreateIndex_def add_suffixes_tbl_def
      add_suffixes_idx_def Let_def split: option.splits)

lemma C4_examples:
  "compile_CreateTable ''oracle'' ''CREATE TABLE t (x INTEGER)''
     \<lparr> oracle_tablespace = Some ''TS1'', oracle_iot = Some True \<rparr>
   = ''CREATE TABLE t (x INTEGER) ORGANIZATION INDEX TABLESPACE TS1''"
  "compile_CreateTable ''mysql'' ''CREATE TABLE t (x INTEGER)''
     \<lparr> oracle_tablespace = Some ''TS1'', oracle_iot = Some True \<rparr>
   = ''CREATE TABLE t (x INTEGER)''"
  "compile_CreateIndex ''oracle'' ''CREATE INDEX i ON t (x)''
     \<lparr> oracle_tablespace = Some ''TS1'', oracle_iot = Some True \<rparr>
   = ''CREATE INDEX i ON t (x) TABLESPACE TS1''"
  by (simp_all add: compile_CreateTable_def compile_CreateIndex_def add_suffixes_tbl_def
      add_suffixes_idx_def)

section \<open>The column builder\<close>

lemma pkey_columns_first_primary:
  "pkey_columns ixs =
     (case filter (\<lambda>ix. ix_type ix = ''PRIMARY'') ixs of
        [] \<Rightarrow> {}
      | ix # _ \<Rightarrow> set (ix_columns ix))"
  by (induction ixs) simp_all

lemma pkey_columns_single_primary:
  assumes "length (filter (\<lambda>ix. ix_type ix = ''PRIMARY'') ixs) \<le> 1"
  shows "n \<in> pkey_columns ixs \<longleftrightarrow>
           (\<exists>ix \<in> set ixs. ix_type ix = ''PRIMARY'' \<and> n \<in> set (ix_columns ix))"
proof (cases "filter (\<lambda>ix. ix_type ix = ''PRIMARY'') ixs")
  case Nil
  then have "\<forall>ix \<in> set ixs. ix_type ix \<noteq> ''PRIMARY''"
    by (simp add: filter_empty_conv)
  with Nil show ?thesis
    by (auto simp add: pkey_columns_first_primary)
next
  case (Cons p ps)
  with assms have ps: "ps = []" by simp
  have "set (filter (\<lambda>ix. ix_type ix = ''PRIMARY'') ixs) = {p}"
    using Cons ps by simp
  then have "{ix \<in> set ixs. ix_type ix = ''PRIMARY''} = {p}"
    by simp
  then have "\<And>ix. (ix \<in> set ixs \<and> ix_type ix = ''PRIMARY'') \<longleftrightarrow> ix = p"
    by blast
  then have "(\<exists>ix \<in> set ixs. ix_type ix = ''PRIMARY'' \<and> n \<in> set (ix_columns ix))
               \<longleftrightarrow> n \<in> set (ix_columns p)"
    by (metis (no_types, lifting))
  with Cons show ?thesis
    by (simp add: pkey_columns_first_primary)
qed

lemma column_defs_Inr:
  "column_defs tm pkey cs = Inr cols \<Longrightarrow>
     length cols = length cs
     \<and> (\<forall>i < length cs.
           col_name (cols ! i) = cd_name (cs ! i)
         \<and> autoincrement (cols ! i) = (if cd_name (cs ! i) \<in> pkey then Some False else None))"
proof (induction cs arbitrary: cols)
  case Nil
  then show ?case by simp
next
  case (Cons c cs)
  then show ?case
    by (auto simp add: make_column_def nth_Cons split: option.splits sum.splits nat.splits)
qed

lemma column_defs_total:
  "(\<forall>c \<in> set cs. \<exists>ty. tm (cd_type c) = Some ty) \<Longrightarrow> \<exists>cols. column_defs tm pkey cs = Inr cols"
  by (induction cs) (auto split: option.splits sum.splits)

lemma column_defs_all_known:
  "column_defs tm pkey cs = Inr cols \<Longrightarrow> \<forall>c \<in> set cs. \<exists>ty. tm (cd_type c) = Some ty"
  by (induction cs arbitrary: cols) (auto split: option.splits sum.splits)

text \<open>
  C3. For a catalog table with at most one PRIMARY index (the catalog's rule) whose
  column types are all keys of the type map, \<^verbatim>\<open>_tableColumns\<close> returns one Column
  per catalog column, in order, and the keyword \<^verbatim>\<open>autoincrement=False\<close> is passed
  exactly for the columns named in a PRIMARY index of the table; for every other column
  the keyword is not passed at all.
\<close>

theorem C3_primary_key_columns_not_autoincrement:
  assumes catalog: "tableSchemas self table_name = Some ts"
    and one_primary: "length (filter (\<lambda>ix. ix_type ix = ''PRIMARY'') (indices ts)) \<le> 1"
    and known_types: "\<forall>c \<in> set (columns ts). \<exists>ty. type_map self (cd_type c) = Some ty"
  shows "\<exists>cols. tableColumns self table_name = Inr cols
     \<and> length cols = length (columns ts)
     \<and> (\<forall>i < length (columns ts).
           col_name (cols ! i) = cd_name (columns ts ! i)
         \<and> autoincrement (cols ! i) =
             (if \<exists>ix \<in> set (indices ts).
                   ix_type ix = ''PRIMARY'' \<and> cd_name (columns ts ! i) \<in> set (ix_columns ix)
              then Some False else None))"
proof -
  from column_defs_total [OF known_types]
  obtain cols where cols:
    "column_defs (type_map self) (pkey_columns (indices ts)) (columns ts) = Inr cols"
    by blast
  with catalog have run: "tableColumns self table_name = Inr cols"
    by (simp add: tableColumns_def)
  from column_defs_Inr [OF cols] have len: "length cols = length (columns ts)"
    and each: "\<forall>i < length (columns ts).
           col_name (cols ! i) = cd_name (columns ts ! i)
         \<and> autoincrement (cols ! i) =
             (if cd_name (columns ts ! i) \<in> pkey_columns (indices ts) then Some False else None)"
    by simp_all
  from each have "\<forall>i < length (columns ts).
           col_name (cols ! i) = cd_name (columns ts ! i)
         \<and> autoincrement (cols ! i) =
             (if \<exists>ix \<in> set (indices ts).
                   ix_type ix = ''PRIMARY'' \<and> cd_name (columns ts ! i) \<in> set (ix_columns ix)
              then Some False else None)"
    by (simp only: pkey_columns_single_primary [OF one_primary])
  with run len show ?thesis by blast
qed

theorem C3_primary_key_columns_not_autoincrement_witness:
  "\<exists>cols. tableColumns example_self ''DiaObject'' = Inr cols
     \<and> length cols = 3
     \<and> autoincrement (cols ! 0) = Some False
     \<and> autoincrement (cols ! 1) = None
     \<and> autoincrement (cols ! 2) = None"
proof -
  have catalog: "tableSchemas example_self ''DiaObject'' = Some example_DiaObject"
    by (simp add: example_self_def example_schemas_def)
  have one_primary:
    "length (filter (\<lambda>ix. ix_type ix = ''PRIMARY'') (indices example_DiaObject)) \<le> 1"
    by (simp add: example_DiaObject_def)
  have known_types:
    "\<forall>c \<in> set (columns example_DiaObject). \<exists>ty. type_map example_self (cd_type c) = Some ty"
    by (simp add: example_DiaObject_def example_self_def)
  from C3_primary_key_columns_not_autoincrement [OF catalog one_primary known_types]
  obtain cols where run: "tableColumns example_self ''DiaObject'' = Inr cols"
    and len: "length cols = length (columns example_DiaObject)"
    and each: "\<forall>i < length (columns example_DiaObject).
           col_name (cols ! i) = cd_name (columns example_DiaObject ! i)
         \<and> autoincrement (cols ! i) =
             (if \<exists>ix \<in> set (indices example_DiaObject).
                   ix_type ix = ''PRIMARY''
                   \<and> cd_name (columns example_DiaObject ! i) \<in> set (ix_columns ix)
              then Some False else None)"
    by blast
  from len have l3: "length cols = 3" by (simp add: example_DiaObject_def)
  from spec [OF each, of 0] have a0: "autoincrement (cols ! 0) = Some False"
    by (simp add: example_DiaObject_def)
  from spec [OF each, of 1] have a1: "autoincrement (cols ! 1) = None"
    by (simp add: example_DiaObject_def)
  from spec [OF each, of 2] have a2: "autoincrement (cols ! 2) = None"
    by (simp add: example_DiaObject_def)
  from run l3 a0 a1 a2 show ?thesis by blast
qed

text \<open>
  Without the catalog's rule the set is that of the first PRIMARY index only: the loop
  of lines 285-288 leaves at the first one.
\<close>

lemma tableColumns_first_primary_only:
  "column_defs (map_of [(''INT'', Integer)])
     (pkey_columns
        [\<lparr> ix_name = None, ix_type = ''PRIMARY'', ix_columns = [''a''] \<rparr>,
         \<lparr> ix_name = None, ix_type = ''PRIMARY'', ix_columns = [''b''] \<rparr>])
     [\<lparr> cd_name = ''a'', cd_type = ''INT'', cd_nullable = False, cd_default = None \<rparr>,
      \<lparr> cd_name = ''b'', cd_type = ''INT'', cd_nullable = False, cd_default = None \<rparr>]
   = Inr [\<lparr> col_name = ''a'', col_type = Integer, nullable = False, server_default = None,
             autoincrement = Some False \<rparr>,
          \<lparr> col_name = ''b'', col_type = Integer, nullable = False, server_default = None,
             autoincrement = None \<rparr>]"
  by (simp add: make_column_def)

section \<open>The index and constraint builder\<close>

lemma index_defs_skip:
  "index_defs pfx info (filter recognized ixs) = index_defs pfx info ixs"
proof (induction ixs)
  case Nil
  show ?case by simp
next
  case (Cons ix ixs)
  show ?case
  proof (cases "recognized ix")
    case True
    then show ?thesis by (simp add: Cons.IH split: option.splits)
  next
    case False
    then have "index_defs pfx info (ix # ixs) = index_defs pfx info ixs"
      by (simp add: recognized_def)
    with False Cons.IH show ?thesis by simp
  qed
qed

lemma index_defs_total:
  "(\<forall>ix \<in> set ixs. ix_type ix = ''INDEX'' \<longrightarrow> ix_name ix \<noteq> None)
     \<Longrightarrow> \<exists>defs. index_defs pfx info ixs = Inr defs"
  by (induction ixs) (auto split: option.splits sum.splits)

lemma index_defs_recognized:
  "index_defs pfx info ixs = Inr defs \<Longrightarrow> \<forall>ix \<in> set ixs. recognized ix \<Longrightarrow>
     length defs = length ixs
     \<and> (\<forall>i < length ixs.
           item_kind (defs ! i) = ix_type (ixs ! i)
         \<and> item_columns (defs ! i) = ix_columns (ixs ! i))"
proof (induction ixs arbitrary: defs)
  case Nil
  then show ?case by simp
next
  case (Cons ix ixs)
  then show ?case
    by (auto simp add: recognized_def nth_Cons split: option.splits sum.splits nat.splits if_splits)
qed

lemma tableIndices_found:
  "tableSchemas self table_name = Some ts \<Longrightarrow>
     tableIndices self table_name info = index_defs (prefix self) info (indices ts)"
  by (simp add: tableIndices_def)

text \<open>
  C10. An index descriptor whose type is none of INDEX, PRIMARY and UNIQUE leaves no
  trace: \<^verbatim>\<open>_tableIndices\<close> returns what it returns for the catalog table with those
  descriptors removed, and a table that has only such descriptors gives the empty list.
  When the call returns, it returns one object per recognised descriptor, in the
  declared order, of the descriptor's kind and with the descriptor's columns in their
  declared order. The call returns whenever every descriptor of type INDEX has a name.
\<close>

theorem C10_unrecognized_index_kinds_skipped:
  assumes catalog: "tableSchemas self table_name = Some ts"
  shows "tableIndices self table_name info =
           tableIndices
             (self\<lparr> tableSchemas := (tableSchemas self)
                 (table_name \<mapsto> ts\<lparr> indices := filter recognized (indices ts) \<rparr>) \<rparr>)
             table_name info
     \<and> ((\<forall>ix \<in> set (indices ts). \<not> recognized ix) \<longrightarrow>
           tableIndices self table_name info = Inr [])
     \<and> (\<forall>defs. tableIndices self table_name info = Inr defs \<longrightarrow>
           length defs = length (filter recognized (indices ts))
           \<and> (\<forall>i < length defs.
                 item_kind (defs ! i) = ix_type (filter recognized (indices ts) ! i)
               \<and> item_columns (defs ! i) = ix_columns (filter recognized (indices ts) ! i)))
     \<and> ((\<forall>ix \<in> set (indices ts). ix_type ix = ''INDEX'' \<longrightarrow> ix_name ix \<noteq> None) \<longrightarrow>
           (\<exists>defs. tableIndices self table_name info = Inr defs))"
proof -
  have same: "tableIndices self table_name info =
           tableIndices
             (self\<lparr> tableSchemas := (tableSchemas self)
                 (table_name \<mapsto> ts\<lparr> indices := filter recognized (indices ts) \<rparr>) \<rparr>)
             table_name info"
    using catalog by (simp add: tableIndices_def index_defs_skip)
  have only_unknown: "(\<forall>ix \<in> set (indices ts). \<not> recognized ix) \<longrightarrow>
           tableIndices self table_name info = Inr []"
  proof
    assume "\<forall>ix \<in> set (indices ts). \<not> recognized ix"
    then have "filter recognized (indices ts) = []"
      by (simp add: filter_empty_conv)
    then have "index_defs (prefix self) info (indices ts) = Inr []"
      using index_defs_skip [of "prefix self" info "indices ts"] by simp
    then show "tableIndices self table_name info = Inr []"
      by (simp add: tableIndices_found [OF catalog])
  qed
  have shape: "\<forall>defs. tableIndices self table_name info = Inr defs \<longrightarrow>
           length defs = length (filter recognized (indices ts))
           \<and> (\<forall>i < length defs.
                 item_kind (defs ! i) = ix_type (filter recognized (indices ts) ! i)
               \<and> item_columns (defs ! i) = ix_columns (filter recognized (indices ts) ! i))"
  proof (intro allI impI)
    fix defs
    assume "tableIndices self table_name info = Inr defs"
    then have "index_defs (prefix self) info (filter recognized (indices ts)) = Inr defs"
      by (simp add: tableIndices_found [OF catalog] index_defs_skip)
    from index_defs_recognized [OF this]
    show "length defs = length (filter recognized (indices ts))
           \<and> (\<forall>i < length defs.
                 item_kind (defs ! i) = ix_type (filter recognized (indices ts) ! i)
               \<and> item_columns (defs ! i) = ix_columns (filter recognized (indices ts) ! i))"
      by simp
  qed
  have returns: "(\<forall>ix \<in> set (indices ts). ix_type ix = ''INDEX'' \<longrightarrow> ix_name ix \<noteq> None) \<longrightarrow>
           (\<exists>defs. tableIndices self table_name info = Inr defs)"
  proof
    assume "\<forall>ix \<in> set (indices ts). ix_type ix = ''INDEX'' \<longrightarrow> ix_name ix \<noteq> None"
    from index_defs_total [OF this]
    show "\<exists>defs. tableIndices self table_name info = Inr defs"
      by (simp add: tableIndices_found [OF catalog])
  qed
  show ?thesis
    by (rule conjI [OF same conjI [OF only_unknown conjI [OF shape returns]]])
qed

theorem C10_unrecognized_index_kinds_skipped_witness:
  "\<exists>defs. tableIndices example_self ''DiaSource'' \<lparr> oracle_tablespace = None, oracle_iot = None \<rparr>
             = Inr defs
     \<and> length defs = 1
     \<and> item_kind (defs ! 0) = ''PRIMARY''
     \<and> item_columns (defs ! 0) = [''diaSourceId'']"
proof -
  have catalog: "tableSchemas example_self ''DiaSource'' = Some example_DiaSource"
    by (simp add: example_self_def example_schemas_def)
  have named: "\<forall>ix \<in> set (indices example_DiaSource). ix_type ix = ''INDEX'' \<longrightarrow> ix_name ix \<noteq> None"
    by (simp add: example_DiaSource_def)
  have kept: "filter recognized (indices example_DiaSource) =
      [\<lparr> ix_name = None, ix_type = ''PRIMARY'', ix_columns = [''diaSourceId''] \<rparr>]"
    by (simp add: example_DiaSource_def recognized_def)
  note main = C10_unrecognized_index_kinds_skipped [OF catalog,
      of "\<lparr> oracle_tablespace = None, oracle_iot = None \<rparr>"]
  from main named obtain defs where
    run: "tableIndices example_self ''DiaSource'' \<lparr> oracle_tablespace = None, oracle_iot = None \<rparr>
            = Inr defs"
    by blast
  from main run have shape: "length defs = length (filter recognized (indices example_DiaSource))
           \<and> (\<forall>i < length defs.
                 item_kind (defs ! i) = ix_type (filter recognized (indices example_DiaSource) ! i)
               \<and> item_columns (defs ! i)
                   = ix_columns (filter recognized (indices example_DiaSource) ! i))"
    by blast
  from shape have "length defs = 1
     \<and> item_kind (defs ! 0) = ''PRIMARY''
     \<and> item_columns (defs ! 0) = [''diaSourceId'']"
    by (simp add: kept)
  with run show ?thesis by blast
qed

section \<open>The table assembler\<close>

text \<open>
  The builders read the catalog, the type map and the prefix only, so registering a
  table or storing it in an attribute does not change what they return.
\<close>

lemma tableColumns_frame:
  "tableSchemas s' = tableSchemas s \<Longrightarrow> type_map s' = type_map s \<Longrightarrow>
     tableColumns s' name = tableColumns s name"
  by (simp add: tableColumns_def split: option.splits)

lemma tableIndices_frame:
  "tableSchemas s' = tableSchemas s \<Longrightarrow> prefix s' = prefix s \<Longrightarrow>
     tableIndices s' name info = tableIndices s name info"
  by (simp add: tableIndices_def split: option.splits)

text \<open>The table that a block registers for given column and index lists.\<close>

lemma new_Table_Inr:
  "new_Table name md its engine info = Inr (table, md') \<longleftrightarrow>
     name \<notin> tbl_name ` set md
     \<and> table = \<lparr> tbl_name = name, tbl_items = its, mysql_engine = engine, tbl_info = info \<rparr>
     \<and> md' = md @ [table]"
  by (auto simp add: new_Table_def Let_def)

lemma new_Table_Inl:
  "new_Table name md its engine info = Inl e \<longleftrightarrow>
     name \<in> tbl_name ` set md \<and> e = InvalidRequestError name"
  by (auto simp add: new_Table_def Let_def)

lemma make_objects_Inr:
  assumes "make_objects engine info s = Inr s'"
  shows "\<exists>cols cons.
      tableColumns s ''DiaObject'' = Inr cols
    \<and> tableIndices s (if dia_object_index s = ''pix_id_iov''
                       then ''DiaObjectIndexHtmFirst'' else ''DiaObject'') info = Inr cons
    \<and> prefix s @ ''DiaObject'' \<notin> tbl_name ` set (metadata s)
    \<and> s' = s\<lparr> metadata := metadata s @
                  [\<lparr> tbl_name = prefix s @ ''DiaObject'',
                     tbl_items = map ColumnItem cols @ cons,
                     mysql_engine = engine, tbl_info = info \<rparr>],
                objects := Some \<lparr> tbl_name = prefix s @ ''DiaObject'',
                     tbl_items = map ColumnItem cols @ cons,
                     mysql_engine = engine, tbl_info = info \<rparr> \<rparr>"
  using assms
  by (auto simp add: make_objects_def new_Table_Inr split: sum.splits if_splits prod.splits)

lemma make_objects_nightly_Inr:
  assumes "make_objects_nightly engine info s = Inr s'"
  shows "if dia_object_nightly s then
      (\<exists>cols. tableColumns s ''DiaObject'' = Inr cols
       \<and> prefix s @ ''DiaObjectNightly'' \<notin> tbl_name ` set (metadata s)
       \<and> s' = s\<lparr> metadata := metadata s @
                  [\<lparr> tbl_name = prefix s @ ''DiaObjectNightly'',
                     tbl_items = map ColumnItem cols,
                     mysql_engine = engine, tbl_info = info \<rparr>],
                objects_nightly := Some \<lparr> tbl_name = prefix s @ ''DiaObjectNightly'',
                     tbl_items = map ColumnItem cols,
                     mysql_engine = engine, tbl_info = info \<rparr> \<rparr>)
     else s' = s"
  using assms
  by (auto simp add: make_objects_nightly_def new_Table_Inr split: sum.splits if_splits prod.splits)

lemma make_objects_last_Inr:
  assumes "make_objects_last engine info iot s = Inr s'"
  shows "if dia_object_index s = ''last_object_table'' then
      (\<exists>cols idx. tableColumns s ''DiaObjectLast'' = Inr cols
       \<and> tableIndices s ''DiaObjectLast'' info = Inr idx
       \<and> prefix s @ ''DiaObjectLast'' \<notin> tbl_name ` set (metadata s)
       \<and> s' = s\<lparr> metadata := metadata s @
                  [\<lparr> tbl_name = prefix s @ ''DiaObjectLast'',
                     tbl_items = map ColumnItem cols @ idx,
                     mysql_engine = engine, tbl_info = info\<lparr> oracle_iot := Some iot \<rparr> \<rparr>],
                objects_last := Some \<lparr> tbl_name = prefix s @ ''DiaObjectLast'',
                     tbl_items = map ColumnItem cols @ idx,
                     mysql_engine = engine, tbl_info = info\<lparr> oracle_iot := Some iot \<rparr> \<rparr> \<rparr>)
     else s' = s"
  using assms
  by (auto simp add: make_objects_last_def new_Table_Inr Let_def
      split: sum.splits if_splits prod.splits)

lemma make_visits_Inr:
  assumes "make_visits engine info s = Inr s'"
  shows "prefix s @ ''PpdbProtoVisits'' \<notin> tbl_name ` set (metadata s)
     \<and> s' = s\<lparr> metadata := metadata s @
                  [\<lparr> tbl_name = prefix s @ ''PpdbProtoVisits'',
                     tbl_items = visits_items (prefix s) info,
                     mysql_engine = engine, tbl_info = info \<rparr>],
                visits := Some \<lparr> tbl_name = prefix s @ ''PpdbProtoVisits'',
                     tbl_items = visits_items (prefix s) info,
                     mysql_engine = engine, tbl_info = info \<rparr> \<rparr>"
  using assms
  by (auto simp add: make_visits_def new_Table_Inr split: sum.splits if_splits prod.splits)

lemma tableColumns_update [simp]:
  "tableColumns (s\<lparr> metadata := md \<rparr>) name = tableColumns s name"
  "tableColumns (s\<lparr> objects := t \<rparr>) name = tableColumns s name"
  "tableColumns (s\<lparr> objects_nightly := t \<rparr>) name = tableColumns s name"
  "tableColumns (s\<lparr> objects_last := t \<rparr>) name = tableColumns s name"
  "tableColumns (s\<lparr> sources := t \<rparr>) name = tableColumns s name"
  "tableColumns (s\<lparr> forcedSources := t \<rparr>) name = tableColumns s name"
  "tableColumns (s\<lparr> visits := t \<rparr>) name = tableColumns s name"
  by (rule tableColumns_frame, simp, simp)+

lemma tableIndices_update [simp]:
  "tableIndices (s\<lparr> metadata := md \<rparr>) name info = tableIndices s name info"
  "tableIndices (s\<lparr> objects := t \<rparr>) name info = tableIndices s name info"
  "tableIndices (s\<lparr> objects_nightly := t \<rparr>) name info = tableIndices s name info"
  "tableIndices (s\<lparr> objects_last := t \<rparr>) name info = tableIndices s name info"
  "tableIndices (s\<lparr> sources := t \<rparr>) name info = tableIndices s name info"
  "tableIndices (s\<lparr> forcedSources := t \<rparr>) name info = tableIndices s name info"
  "tableIndices (s\<lparr> visits := t \<rparr>) name info = tableIndices s name info"
  by (rule tableIndices_frame, simp, simp)+

lemma catalog_table_frame:
  assumes "tableSchemas s' = tableSchemas s" and "type_map s' = type_map s"
    and "prefix s' = prefix s"
  shows "catalog_table s' name engine info = catalog_table s name engine info"
proof -
  have "tableColumns s' name = tableColumns s name"
    using assms by (rule_tac tableColumns_frame)
  moreover have "tableIndices s' name info = tableIndices s name info"
    using assms by (rule_tac tableIndices_frame)
  ultimately show ?thesis
    unfolding catalog_table_def using assms(3) by (simp split: sum.splits)
qed

lemma catalog_table_update [simp]:
  "catalog_table (s\<lparr> metadata := md \<rparr>) name engine info = catalog_table s name engine info"
  "catalog_table (s\<lparr> objects := t \<rparr>) name engine info = catalog_table s name engine info"
  "catalog_table (s\<lparr> objects_nightly := t \<rparr>) name engine info = catalog_table s name engine info"
  "catalog_table (s\<lparr> objects_last := t \<rparr>) name engine info = catalog_table s name engine info"
  "catalog_table (s\<lparr> sources := t \<rparr>) name engine info = catalog_table s name engine info"
  "catalog_table (s\<lparr> forcedSources := t \<rparr>) name engine info = catalog_table s name engine info"
  "catalog_table (s\<lparr> visits := t \<rparr>) name engine info = catalog_table s name engine info"
  by (rule catalog_table_frame, simp, simp, simp)+

lemma catalog_table_InrD:
  assumes "catalog_table s name engine info = Inr t"
  shows "\<exists>cols idx. tableColumns s name = Inr cols \<and> tableIndices s name info = Inr idx
        \<and> t = \<lparr> tbl_name = prefix s @ name, tbl_items = map ColumnItem cols @ idx,
                 mysql_engine = engine, tbl_info = info \<rparr>"
proof -
  obtain cols where cols: "tableColumns s name = Inr cols"
    using assms by (cases "tableColumns s name") (simp_all add: catalog_table_def)
  obtain idx where idx: "tableIndices s name info = Inr idx"
    using assms cols by (cases "tableIndices s name info") (simp_all add: catalog_table_def)
  from assms cols idx
  have "t = \<lparr> tbl_name = prefix s @ name, tbl_items = map ColumnItem cols @ idx,
                 mysql_engine = engine, tbl_info = info \<rparr>"
    by (simp add: catalog_table_def)
  with cols idx show ?thesis by blast
qed

lemma catalog_table_InrI:
  "tableColumns s name = Inr cols \<Longrightarrow> tableIndices s name info = Inr idx \<Longrightarrow>
     catalog_table s name engine info =
       Inr \<lparr> tbl_name = prefix s @ name, tbl_items = map ColumnItem cols @ idx,
             mysql_engine = engine, tbl_info = info \<rparr>"
  by (simp add: catalog_table_def)


text \<open>One round of the loop of lines 216-225.\<close>

lemma other_step_Inr:
  assumes "make_other_tables engine info (name # rest) s = Inr s'"
  shows "\<exists>t. catalog_table s name engine info = Inr t
    \<and> prefix s @ name \<notin> tbl_name ` set (metadata s)
    \<and> make_other_tables engine info rest
        (if name = ''DiaSource''
         then s\<lparr> metadata := metadata s @ [t], sources := Some t \<rparr>
         else if name = ''DiaForcedSource''
         then s\<lparr> metadata := metadata s @ [t], forcedSources := Some t \<rparr>
         else s\<lparr> metadata := metadata s @ [t] \<rparr>) = Inr s'"
proof -
  obtain cols where cols: "tableColumns s name = Inr cols"
    using assms by (cases "tableColumns s name") simp_all
  obtain idx where idx: "tableIndices s name info = Inr idx"
    using assms cols by (cases "tableIndices s name info") simp_all
  define t where "t = \<lparr> tbl_name = prefix s @ name, tbl_items = map ColumnItem cols @ idx,
                        mysql_engine = engine, tbl_info = info \<rparr>"
  have fresh: "prefix s @ name \<notin> tbl_name ` set (metadata s)"
    using assms cols idx
    by (cases "prefix s @ name \<in> tbl_name ` set (metadata s)") (simp_all add: new_Table_def)
  then have made: "new_Table (prefix s @ name) (metadata s) (map ColumnItem cols @ idx) engine info
                = Inr (t, metadata s @ [t])"
    by (simp add: new_Table_def t_def Let_def)
  have tab: "catalog_table s name engine info = Inr t"
    by (simp add: catalog_table_def cols idx t_def)
  have "make_other_tables engine info rest
        (if name = ''DiaSource''
         then s\<lparr> metadata := metadata s @ [t], sources := Some t \<rparr>
         else if name = ''DiaForcedSource''
         then s\<lparr> metadata := metadata s @ [t], forcedSources := Some t \<rparr>
         else s\<lparr> metadata := metadata s @ [t] \<rparr>) = Inr s'"
    using assms
    by (simp only: make_other_tables.simps cols idx made sum.case prod.case)
  with tab fresh show ?thesis by blast
qed


text \<open>The loop changes the registered tables, \<open>sources\<close> and \<open>forcedSources\<close> only.\<close>

lemma make_other_tables_frame:
  "make_other_tables engine info names s = Inr s' \<Longrightarrow>
     engine_name s' = engine_name s \<and> dia_object_index s' = dia_object_index s
   \<and> dia_object_nightly s' = dia_object_nightly s \<and> prefix s' = prefix s
   \<and> tableSchemas s' = tableSchemas s \<and> type_map s' = type_map s
   \<and> objects s' = objects s \<and> objects_nightly s' = objects_nightly s
   \<and> objects_last s' = objects_last s \<and> visits s' = visits s"
proof (induction names arbitrary: s)
  case Nil
  then show ?case by simp
next
  case (Cons name rest)
  from other_step_Inr [OF Cons.prems] obtain t where
    step: "make_other_tables engine info rest
        (if name = ''DiaSource''
         then s\<lparr> metadata := metadata s @ [t], sources := Some t \<rparr>
         else if name = ''DiaForcedSource''
         then s\<lparr> metadata := metadata s @ [t], forcedSources := Some t \<rparr>
         else s\<lparr> metadata := metadata s @ [t] \<rparr>) = Inr s'"
    by blast
  from Cons.IH [OF step] show ?case
    by (simp split: if_splits)
qed

text \<open>The tables the loop registers: one per name, in order, each the table of its entry.\<close>

lemma make_other_tables_metadata:
  "make_other_tables engine info names s = Inr s' \<Longrightarrow>
     \<exists>new. metadata s' = metadata s @ new
       \<and> list_all2 (\<lambda>name t. catalog_table s name engine info = Inr t) names new"
proof (induction names arbitrary: s)
  case Nil
  then show ?case by simp
next
  case (Cons name rest)
  from other_step_Inr [OF Cons.prems] obtain t where
    t: "catalog_table s name engine info = Inr t"
    and step: "make_other_tables engine info rest
        (if name = ''DiaSource''
         then s\<lparr> metadata := metadata s @ [t], sources := Some t \<rparr>
         else if name = ''DiaForcedSource''
         then s\<lparr> metadata := metadata s @ [t], forcedSources := Some t \<rparr>
         else s\<lparr> metadata := metadata s @ [t] \<rparr>) = Inr s'"
    by blast
  from Cons.IH [OF step] obtain new where
    md: "metadata s' = (metadata s @ [t]) @ new"
    and all: "list_all2 (\<lambda>name t. catalog_table s name engine info = Inr t) rest new"
    by (auto split: if_splits)
  from md t all have "metadata s' = metadata s @ (t # new)
     \<and> list_all2 (\<lambda>name t. catalog_table s name engine info = Inr t) (name # rest) (t # new)"
    by simp
  then show ?case by blast
qed

text \<open>The two attributes the loop stores.\<close>

lemma make_other_tables_sources:
  "make_other_tables engine info names s = Inr s' \<Longrightarrow>
     (if ''DiaSource'' \<in> set names
      then \<exists>t. catalog_table s ''DiaSource'' engine info = Inr t \<and> sources s' = Some t
      else sources s' = sources s)"
proof (induction names arbitrary: s)
  case Nil
  then show ?case by simp
next
  case (Cons name rest)
  from other_step_Inr [OF Cons.prems] obtain t where
    t: "catalog_table s name engine info = Inr t"
    and step: "make_other_tables engine info rest
        (if name = ''DiaSource''
         then s\<lparr> metadata := metadata s @ [t], sources := Some t \<rparr>
         else if name = ''DiaForcedSource''
         then s\<lparr> metadata := metadata s @ [t], forcedSources := Some t \<rparr>
         else s\<lparr> metadata := metadata s @ [t] \<rparr>) = Inr s'"
    by blast
  from Cons.IH [OF step] t show ?case
    by (auto split: if_splits)
qed

lemma make_other_tables_forcedSources:
  "make_other_tables engine info names s = Inr s' \<Longrightarrow>
     (if ''DiaForcedSource'' \<in> set names
      then \<exists>t. catalog_table s ''DiaForcedSource'' engine info = Inr t \<and> forcedSources s' = Some t
      else forcedSources s' = forcedSources s)"
proof (induction names arbitrary: s)
  case Nil
  then show ?case by simp
next
  case (Cons name rest)
  from other_step_Inr [OF Cons.prems] obtain t where
    t: "catalog_table s name engine info = Inr t"
    and step: "make_other_tables engine info rest
        (if name = ''DiaSource''
         then s\<lparr> metadata := metadata s @ [t], sources := Some t \<rparr>
         else if name = ''DiaForcedSource''
         then s\<lparr> metadata := metadata s @ [t], forcedSources := Some t \<rparr>
         else s\<lparr> metadata := metadata s @ [t] \<rparr>) = Inr s'"
    by blast
  from Cons.IH [OF step] t show ?case
    by (auto split: if_splits)
qed

text \<open>\<^verbatim>\<open>_makeTables\<close> returns exactly when its five blocks return, one after the other.\<close>

lemma makeTables_blocks:
  assumes "makeTables engine tablespace iot s = Inr s'"
  shows "\<exists>s1 s2 s3 s4.
      make_objects engine \<lparr> oracle_tablespace = tablespace, oracle_iot = None \<rparr> s = Inr s1
    \<and> make_objects_nightly engine \<lparr> oracle_tablespace = tablespace, oracle_iot = None \<rparr> s1 = Inr s2
    \<and> make_objects_last engine \<lparr> oracle_tablespace = tablespace, oracle_iot = None \<rparr> iot s2 = Inr s3
    \<and> make_other_tables engine \<lparr> oracle_tablespace = tablespace, oracle_iot = None \<rparr>
          other_table_names s3 = Inr s4
    \<and> make_visits engine \<lparr> oracle_tablespace = tablespace, oracle_iot = None \<rparr> s4 = Inr s'"
  using assms
  by (simp add: makeTables_def Let_def split: sum.splits)

lemma same_env_builders:
  assumes "same_env s s'"
  shows "tableColumns s' name = tableColumns s name"
    and "tableIndices s' name info = tableIndices s name info"
    and "catalog_table s' name engine info = catalog_table s name engine info"
proof -
  from assms have env: "tableSchemas s' = tableSchemas s" "type_map s' = type_map s"
    "prefix s' = prefix s"
    by (simp_all add: same_env_def)
  show "tableColumns s' name = tableColumns s name"
    by (rule tableColumns_frame [OF env(1) env(2)])
  show "tableIndices s' name info = tableIndices s name info"
    by (rule tableIndices_frame [OF env(1) env(3)])
  show "catalog_table s' name engine info = catalog_table s name engine info"
    by (rule catalog_table_frame [OF env])
qed

text \<open>
  What \<^verbatim>\<open>_makeTables\<close> leaves behind when it returns: the tables it registered, in
  order, and the value of each of the six attributes.
\<close>

lemma makeTables_result:
  assumes run: "makeTables engine tablespace iot s = Inr s'"
  shows "\<exists>cols cons t1 t2 t3 t4.
      tableColumns s ''DiaObject'' = Inr cols
    \<and> tableIndices s (if dia_object_index s = ''pix_id_iov''
                       then ''DiaObjectIndexHtmFirst'' else ''DiaObject'')
          \<lparr> oracle_tablespace = tablespace, oracle_iot = None \<rparr> = Inr cons
    \<and> catalog_table s ''DiaSource'' engine
          \<lparr> oracle_tablespace = tablespace, oracle_iot = None \<rparr> = Inr t1
    \<and> catalog_table s ''SSObject'' engine
          \<lparr> oracle_tablespace = tablespace, oracle_iot = None \<rparr> = Inr t2
    \<and> catalog_table s ''DiaForcedSource'' engine
          \<lparr> oracle_tablespace = tablespace, oracle_iot = None \<rparr> = Inr t3
    \<and> catalog_table s ''DiaObject_To_Object_Match'' engine
          \<lparr> oracle_tablespace = tablespace, oracle_iot = None \<rparr> = Inr t4
    \<and> same_env s s'
    \<and> objects s' = Some \<lparr> tbl_name = prefix s @ ''DiaObject'',
                            tbl_items = map ColumnItem cols @ cons,
                            mysql_engine = engine,
                            tbl_info = \<lparr> oracle_tablespace = tablespace, oracle_iot = None \<rparr> \<rparr>
    \<and> objects_nightly s' =
          (if dia_object_nightly s
           then Some \<lparr> tbl_name = prefix s @ ''DiaObjectNightly'',
                        tbl_items = map ColumnItem cols,
                        mysql_engine = engine,
                        tbl_info = \<lparr> oracle_tablespace = tablespace, oracle_iot = None \<rparr> \<rparr>
           else objects_nightly s)
    \<and> (if dia_object_index s = ''last_object_table''
        then \<exists>lcols lidx.
               tableColumns s ''DiaObjectLast'' = Inr lcols
             \<and> tableIndices s ''DiaObjectLast''
                   \<lparr> oracle_tablespace = tablespace, oracle_iot = None \<rparr> = Inr lidx
             \<and> objects_last s' = Some \<lparr> tbl_name = prefix s @ ''DiaObjectLast'',
                   tbl_items = map ColumnItem lcols @ lidx,
                   mysql_engine = engine,
                   tbl_info = \<lparr> oracle_tablespace = tablespace, oracle_iot = Some iot \<rparr> \<rparr>
        else objects_last s' = objects_last s)
    \<and> sources s' = Some t1
    \<and> forcedSources s' = Some t3
    \<and> visits s' = Some \<lparr> tbl_name = prefix s @ ''PpdbProtoVisits'',
                           tbl_items = visits_items (prefix s)
                             \<lparr> oracle_tablespace = tablespace, oracle_iot = None \<rparr>,
                           mysql_engine = engine,
                           tbl_info = \<lparr> oracle_tablespace = tablespace, oracle_iot = None \<rparr> \<rparr>
    \<and> metadata s' = metadata s
          @ [the (objects s')]
          @ (if dia_object_nightly s then [the (objects_nightly s')] else [])
          @ (if dia_object_index s = ''last_object_table'' then [the (objects_last s')] else [])
          @ [t1, t2, t3, t4, the (visits s')]"
proof -
  define info where "info = \<lparr> oracle_tablespace = tablespace, oracle_iot = None \<rparr>"
  from makeTables_blocks [OF run] obtain s1 s2 s3 s4 where
    b1: "make_objects engine info s = Inr s1"
    and b2: "make_objects_nightly engine info s1 = Inr s2"
    and b3: "make_objects_last engine info iot s2 = Inr s3"
    and b4: "make_other_tables engine info other_table_names s3 = Inr s4"
    and b5: "make_visits engine info s4 = Inr s'"
    unfolding info_def by blast
  \<comment> \<open>the table DiaObject\<close>
  from make_objects_Inr [OF b1] obtain cols cons where
    cols: "tableColumns s ''DiaObject'' = Inr cols"
    and cons: "tableIndices s (if dia_object_index s = ''pix_id_iov''
                       then ''DiaObjectIndexHtmFirst'' else ''DiaObject'') info = Inr cons"
    and s1: "s1 = s\<lparr> metadata := metadata s @
                  [\<lparr> tbl_name = prefix s @ ''DiaObject'',
                     tbl_items = map ColumnItem cols @ cons,
                     mysql_engine = engine, tbl_info = info \<rparr>],
                objects := Some \<lparr> tbl_name = prefix s @ ''DiaObject'',
                     tbl_items = map ColumnItem cols @ cons,
                     mysql_engine = engine, tbl_info = info \<rparr> \<rparr>"
    by blast
  define objT where "objT = \<lparr> tbl_name = prefix s @ ''DiaObject'',
                     tbl_items = map ColumnItem cols @ cons,
                     mysql_engine = engine, tbl_info = info \<rparr>"
  have e1: "same_env s s1" by (simp add: s1 same_env_def)
  have m1: "metadata s1 = metadata s @ [objT]" by (simp add: s1 objT_def)
  have r1: "objects s1 = Some objT" "objects_nightly s1 = objects_nightly s"
    "objects_last s1 = objects_last s"
    by (simp_all add: s1 objT_def)
  \<comment> \<open>the table DiaObjectNightly\<close>
  define nightT where "nightT = \<lparr> tbl_name = prefix s @ ''DiaObjectNightly'',
                     tbl_items = map ColumnItem cols,
                     mysql_engine = engine, tbl_info = info \<rparr>"
  have n1: "dia_object_nightly s1 = dia_object_nightly s" "prefix s1 = prefix s"
    "tableColumns s1 ''DiaObject'' = Inr cols"
    using e1 cols by (simp_all add: same_env_def same_env_builders [OF e1])
  have s2: "s2 = (if dia_object_nightly s
                  then s1\<lparr> metadata := metadata s1 @ [nightT], objects_nightly := Some nightT \<rparr>
                  else s1)"
    using make_objects_nightly_Inr [OF b2] n1 by (auto simp add: nightT_def)
  have e2: "same_env s s2" using e1 by (simp add: s2 same_env_def)
  have m2: "metadata s2 = metadata s @ [objT] @ (if dia_object_nightly s then [nightT] else [])"
    by (simp add: s2 m1)
  have r2: "objects s2 = Some objT"
    "objects_nightly s2 = (if dia_object_nightly s then Some nightT else objects_nightly s)"
    "objects_last s2 = objects_last s"
    by (simp_all add: s2 r1)
  \<comment> \<open>the table DiaObjectLast\<close>
  have l2: "dia_object_index s2 = dia_object_index s" "prefix s2 = prefix s"
    using e2 by (simp_all add: same_env_def)
  have s3: "if dia_object_index s = ''last_object_table''
     then \<exists>lcols lidx.
            tableColumns s ''DiaObjectLast'' = Inr lcols
          \<and> tableIndices s ''DiaObjectLast'' info = Inr lidx
          \<and> s3 = s2\<lparr> metadata := metadata s2 @
                  [\<lparr> tbl_name = prefix s @ ''DiaObjectLast'',
                     tbl_items = map ColumnItem lcols @ lidx,
                     mysql_engine = engine, tbl_info = info\<lparr> oracle_iot := Some iot \<rparr> \<rparr>],
                objects_last := Some \<lparr> tbl_name = prefix s @ ''DiaObjectLast'',
                     tbl_items = map ColumnItem lcols @ lidx,
                     mysql_engine = engine, tbl_info = info\<lparr> oracle_iot := Some iot \<rparr> \<rparr> \<rparr>
     else s3 = s2"
    using make_objects_last_Inr [OF b3]
    apply (simp only: l2 same_env_builders [OF e2])
    apply (cases "dia_object_index s = ''last_object_table''")
     apply (simp_all only: if_True if_False simp_thms)
    apply blast
    done
  have e3: "same_env s s3" using e2 s3 by (auto simp add: same_env_def split: if_splits)
  have r3: "objects s3 = Some objT"
    "objects_nightly s3 = (if dia_object_nightly s then Some nightT else objects_nightly s)"
    using s3 r2 by (auto split: if_splits)
  have m3: "metadata s3 = metadata s @ [objT] @ (if dia_object_nightly s then [nightT] else [])
      @ (if dia_object_index s = ''last_object_table'' then [the (objects_last s3)] else [])"
    using s3 m2 by (auto split: if_splits)
  have l3: "if dia_object_index s = ''last_object_table''
        then \<exists>lcols lidx.
               tableColumns s ''DiaObjectLast'' = Inr lcols
             \<and> tableIndices s ''DiaObjectLast'' info = Inr lidx
             \<and> objects_last s3 = Some \<lparr> tbl_name = prefix s @ ''DiaObjectLast'',
                   tbl_items = map ColumnItem lcols @ lidx,
                   mysql_engine = engine,
                   tbl_info = \<lparr> oracle_tablespace = tablespace, oracle_iot = Some iot \<rparr> \<rparr>
        else objects_last s3 = objects_last s"
    using s3 r2 by (auto simp add: info_def split: if_splits)
  \<comment> \<open>the loop over the other catalog tables\<close>
  from make_other_tables_frame [OF b4]
  have f4: "same_env s3 s4" "objects s4 = objects s3" "objects_nightly s4 = objects_nightly s3"
    "objects_last s4 = objects_last s3"
    by (simp_all add: same_env_def)
  from make_other_tables_metadata [OF b4] obtain new where
    m4: "metadata s4 = metadata s3 @ new"
    and new: "list_all2 (\<lambda>name t. catalog_table s3 name engine info = Inr t) other_table_names new"
    by blast
  from new obtain t1 t2 t3 t4 where
    new4: "new = [t1, t2, t3, t4]"
    and t1: "catalog_table s3 ''DiaSource'' engine info = Inr t1"
    and t2: "catalog_table s3 ''SSObject'' engine info = Inr t2"
    and t3: "catalog_table s3 ''DiaForcedSource'' engine info = Inr t3"
    and t4: "catalog_table s3 ''DiaObject_To_Object_Match'' engine info = Inr t4"
    by (auto simp add: other_table_names_def list_all2_Cons1)
  from make_other_tables_sources [OF b4] t1 have src: "sources s4 = Some t1"
    by (simp add: other_table_names_def)
  from make_other_tables_forcedSources [OF b4] t3 have fsrc: "forcedSources s4 = Some t3"
    by (simp add: other_table_names_def)
  have e4: "same_env s s4" using e3 f4(1) by (simp add: same_env_def)
  have tabs: "catalog_table s ''DiaSource'' engine info = Inr t1"
    "catalog_table s ''SSObject'' engine info = Inr t2"
    "catalog_table s ''DiaForcedSource'' engine info = Inr t3"
    "catalog_table s ''DiaObject_To_Object_Match'' engine info = Inr t4"
    using t1 t2 t3 t4 by (simp_all only: same_env_builders [OF e3])
  \<comment> \<open>the table PpdbProtoVisits\<close>
  define visT where "visT = \<lparr> tbl_name = prefix s @ ''PpdbProtoVisits'',
                     tbl_items = visits_items (prefix s) info,
                     mysql_engine = engine, tbl_info = info \<rparr>"
  have p4: "prefix s4 = prefix s" using e4 by (simp add: same_env_def)
  from make_visits_Inr [OF b5]
  have s5: "s' = s4\<lparr> metadata := metadata s4 @ [visT], visits := Some visT \<rparr>"
    by (simp add: p4 visT_def)
  have e5: "same_env s s'" using e4 by (simp add: s5 same_env_def)
  have r5: "objects s' = Some objT"
    "objects_nightly s' = (if dia_object_nightly s then Some nightT else objects_nightly s)"
    "objects_last s' = objects_last s3" "sources s' = Some t1" "forcedSources s' = Some t3"
    "visits s' = Some visT"
    by (simp_all add: s5 f4 r3 src fsrc)
  have m5: "metadata s' = metadata s @ [the (objects s')]
          @ (if dia_object_nightly s then [the (objects_nightly s')] else [])
          @ (if dia_object_index s = ''last_object_table'' then [the (objects_last s')] else [])
          @ [t1, t2, t3, t4, the (visits s')]"
    by (simp add: r5) (simp add: s5 m4 m3 new4)
  have l5: "if dia_object_index s = ''last_object_table''
        then \<exists>lcols lidx.
               tableColumns s ''DiaObjectLast'' = Inr lcols
             \<and> tableIndices s ''DiaObjectLast'' info = Inr lidx
             \<and> objects_last s' = Some \<lparr> tbl_name = prefix s @ ''DiaObjectLast'',
                   tbl_items = map ColumnItem lcols @ lidx,
                   mysql_engine = engine,
                   tbl_info = \<lparr> oracle_tablespace = tablespace, oracle_iot = Some iot \<rparr> \<rparr>
        else objects_last s' = objects_last s"
    using l3 by (simp only: r5(3))
  note f1 = cols
  note f2 = cons [unfolded info_def]
  note f3 = tabs [unfolded info_def]
  note f4 = r5(1) [unfolded objT_def info_def]
  note f5 = r5(2) [unfolded nightT_def info_def]
  note f6 = l5 [unfolded info_def]
  note f7 = r5(6) [unfolded visT_def info_def]
  show ?thesis
    apply (rule exI [where x = cols])
    apply (rule exI [where x = cons])
    apply (rule exI [where x = t1])
    apply (rule exI [where x = t2])
    apply (rule exI [where x = t3])
    apply (rule exI [where x = t4])
    apply (rule conjI, rule f1)
    apply (rule conjI, rule f2)
    apply (rule conjI, rule f3(1))
    apply (rule conjI, rule f3(2))
    apply (rule conjI, rule f3(3))
    apply (rule conjI, rule f3(4))
    apply (rule conjI, rule e5)
    apply (rule conjI, rule f4)
    apply (rule conjI, rule f5)
    apply (rule conjI, rule f6)
    apply (rule conjI, rule r5(4))
    apply (rule conjI, rule r5(5))
    apply (rule conjI, rule f7)
    apply (rule m5)
    done
qed

section \<open>The manager after construction\<close>

















section \<open>Generated names\<close>










section \<open>Creating and dropping the tables\<close>

text \<open>Conditional drops never fail: only tables the database holds are dropped.\<close>

lemma drop_tables_result:
  "distinct (map tbl_name ts) \<Longrightarrow>
     \<exists>db'. drop_tables ts db = Inr db'
       \<and> existing db' = existing db - tbl_name ` set ts
       \<and> executed db' = executed db
            @ map (\<lambda>t. DROP_TABLE (tbl_name t)) (filter (\<lambda>t. tbl_name t \<in> existing db) ts)"
proof (induction ts arbitrary: db)
  case Nil
  then show ?case by simp
next
  case (Cons t ts)
  from Cons.prems have d: "distinct (map tbl_name ts)" and fresh: "\<forall>u \<in> set ts. tbl_name u \<noteq> tbl_name t"
    by (auto simp add: image_iff)
  show ?case
  proof (cases "tbl_name t \<in> existing db")
    case True
    define db1 where "db1 = db\<lparr> existing := existing db - {tbl_name t},
                    executed := executed db @ [DROP_TABLE (tbl_name t)] \<rparr>"
    from True have step: "drop_tables (t # ts) db = drop_tables ts db1"
      by (simp add: db1_def)
    from Cons.IH [OF d, of db1] obtain db' where
      r: "drop_tables ts db1 = Inr db'"
      and e: "existing db' = existing db1 - tbl_name ` set ts"
      and x: "executed db' = executed db1
            @ map (\<lambda>t. DROP_TABLE (tbl_name t)) (filter (\<lambda>t. tbl_name t \<in> existing db1) ts)"
      by blast
    have same: "filter (\<lambda>u. tbl_name u \<in> existing db1) ts
              = filter (\<lambda>u. tbl_name u \<in> existing db) ts"
      using fresh by (intro filter_cong) (auto simp add: db1_def)
    have f1: "existing db1 = existing db - {tbl_name t}"
      "executed db1 = executed db @ [DROP_TABLE (tbl_name t)]"
      by (simp_all add: db1_def)
    from x have x': "executed db' = executed db1
            @ map (\<lambda>t. DROP_TABLE (tbl_name t)) (filter (\<lambda>t. tbl_name t \<in> existing db) ts)"
      by (simp only: same)
    have a: "drop_tables (t # ts) db = Inr db'"
      by (simp only: step r)
    have b: "existing db' = existing db - tbl_name ` set (t # ts)"
      using e f1 by auto
    have c: "executed db' = executed db
            @ map (\<lambda>t. DROP_TABLE (tbl_name t))
                (filter (\<lambda>t. tbl_name t \<in> existing db) (t # ts))"
      using x' f1 True by simp
    from a b c show ?thesis by blast
  next
    case False
    from Cons.IH [OF d, of db] False show ?thesis
      by auto
  qed
qed

text \<open>Conditional creates never fail: only tables the database lacks are created.\<close>

lemma create_tables_result:
  "distinct (map tbl_name ts) \<Longrightarrow>
     \<exists>db'. create_tables ts db = Inr db'
       \<and> existing db' = existing db \<union> tbl_name ` set ts
       \<and> executed db' = executed db
            @ map CREATE_TABLE (filter (\<lambda>t. tbl_name t \<notin> existing db) ts)"
proof (induction ts arbitrary: db)
  case Nil
  then show ?case by simp
next
  case (Cons t ts)
  from Cons.prems have d: "distinct (map tbl_name ts)" and fresh: "\<forall>u \<in> set ts. tbl_name u \<noteq> tbl_name t"
    by (auto simp add: image_iff)
  show ?case
  proof (cases "tbl_name t \<in> existing db")
    case False
    define db1 where "db1 = db\<lparr> existing := insert (tbl_name t) (existing db),
                    executed := executed db @ [CREATE_TABLE t] \<rparr>"
    from False have step: "create_tables (t # ts) db = create_tables ts db1"
      by (simp add: db1_def)
    from Cons.IH [OF d, of db1] obtain db' where
      r: "create_tables ts db1 = Inr db'"
      and e: "existing db' = existing db1 \<union> tbl_name ` set ts"
      and x: "executed db' = executed db1
            @ map CREATE_TABLE (filter (\<lambda>t. tbl_name t \<notin> existing db1) ts)"
      by blast
    have same: "filter (\<lambda>u. tbl_name u \<notin> existing db1) ts
              = filter (\<lambda>u. tbl_name u \<notin> existing db) ts"
      using fresh by (intro filter_cong) (auto simp add: db1_def)
    have f1: "existing db1 = insert (tbl_name t) (existing db)"
      "executed db1 = executed db @ [CREATE_TABLE t]"
      by (simp_all add: db1_def)
    from x have x': "executed db' = executed db1
            @ map CREATE_TABLE (filter (\<lambda>t. tbl_name t \<notin> existing db) ts)"
      by (simp only: same)
    have a: "create_tables (t # ts) db = Inr db'"
      by (simp only: step r)
    have b: "existing db' = existing db \<union> tbl_name ` set (t # ts)"
      using e f1 by auto
    have c: "executed db' = executed db
            @ map CREATE_TABLE (filter (\<lambda>t. tbl_name t \<notin> existing db) (t # ts))"
      using x' f1 False by simp
    from a b c show ?thesis by blast
  next
    case True
    from Cons.IH [OF d, of db] True show ?thesis
      by auto
  qed
qed


text \<open>The builders and the table constructor do not raise an execution error.\<close>

lemma column_defs_not_execution:
  "column_defs tm pkey cs \<noteq> Inl (ExecutionError msg)"
  by (induction cs) (auto split: option.splits sum.splits)

lemma index_defs_not_execution:
  "index_defs pfx info ixs \<noteq> Inl (ExecutionError msg)"
  by (induction ixs) (auto split: option.splits sum.splits)

lemma tableColumns_not_execution:
  "tableColumns s name \<noteq> Inl (ExecutionError msg)"
  by (cases "tableSchemas s name") (simp_all add: tableColumns_def column_defs_not_execution)

lemma tableIndices_not_execution:
  "tableIndices s name info \<noteq> Inl (ExecutionError msg)"
  by (cases "tableSchemas s name") (simp_all add: tableIndices_def index_defs_not_execution)

lemma new_Table_not_execution:
  "new_Table name md its engine info \<noteq> Inl (ExecutionError msg)"
  by (simp add: new_Table_def Let_def)

lemma make_objects_not_execution:
  "make_objects engine info s \<noteq> Inl (ExecutionError msg)"
  using tableColumns_not_execution [of s _ msg] tableIndices_not_execution [of s _ info msg]
    new_Table_not_execution [of _ _ _ engine info msg]
  by (auto simp add: make_objects_def split: sum.splits if_splits prod.splits)

lemma make_objects_nightly_not_execution:
  "make_objects_nightly engine info s \<noteq> Inl (ExecutionError msg)"
  using tableColumns_not_execution [of s _ msg] new_Table_not_execution [of _ _ _ engine info msg]
  by (auto simp add: make_objects_nightly_def split: sum.splits if_splits prod.splits)

lemma make_objects_last_not_execution:
  "make_objects_last engine info iot s \<noteq> Inl (ExecutionError msg)"
  using tableColumns_not_execution [of s _ msg] tableIndices_not_execution [of s _ info msg]
    new_Table_not_execution [of _ _ _ engine _ msg]
  by (auto simp add: make_objects_last_def Let_def split: sum.splits if_splits prod.splits)

lemma make_visits_not_execution:
  "make_visits engine info s \<noteq> Inl (ExecutionError msg)"
  using new_Table_not_execution [of _ _ _ engine info msg]
  by (auto simp add: make_visits_def split: sum.splits prod.splits)

lemma make_other_tables_not_execution:
  "make_other_tables engine info names s \<noteq> Inl (ExecutionError msg)"
proof (induction names arbitrary: s)
  case Nil
  show ?case by simp
next
  case (Cons name rest)
  show ?case
    using tableColumns_not_execution [of s name msg]
      tableIndices_not_execution [of s name info msg]
      new_Table_not_execution [of _ _ _ engine info msg] Cons.IH
    by (auto split: sum.splits prod.splits)
qed

lemma makeTables_not_execution:
  "makeTables engine tablespace iot s \<noteq> Inl (ExecutionError msg)"
  using make_objects_not_execution [of engine _ s msg]
    make_objects_nightly_not_execution [of engine _ _ msg]
    make_objects_last_not_execution [of engine _ iot _ msg]
    make_other_tables_not_execution [of engine _ _ _ msg]
    make_visits_not_execution [of engine _ _ msg]
  by (auto simp add: makeTables_def Let_def split: sum.splits)

text \<open>
  The tables \<^verbatim>\<open>_makeTables\<close> registers in an empty MetaData: one per base name of
  the configuration, in order, each carrying the engine and the tablespace of the call;
  and the attributes it assigns hold registered tables.
\<close>

lemma makeTables_registered:
  assumes run: "makeTables engine tablespace iot s = Inr s'" and empty: "metadata s = []"
  shows "list_all2
           (\<lambda>t base. tbl_name t = prefix s @ base
              \<and> mysql_engine t = engine \<and> oracle_tablespace (tbl_info t) = tablespace)
           (metadata s') (registered_bases (dia_object_index s) (dia_object_nightly s))"
    and "\<forall>attribute \<in> {objects s', sources s', forcedSources s', visits s'}.
           \<exists>t. attribute = Some t \<and> t \<in> set (metadata s')"
    and "if dia_object_nightly s
         then \<exists>t. objects_nightly s' = Some t \<and> t \<in> set (metadata s')
         else objects_nightly s' = objects_nightly s"
    and "if dia_object_index s = ''last_object_table''
         then \<exists>t. objects_last s' = Some t \<and> t \<in> set (metadata s')
         else objects_last s' = objects_last s"
proof -
  define info where "info = \<lparr> oracle_tablespace = tablespace, oracle_iot = (None :: bool option) \<rparr>"
  define fits where "fits = (\<lambda>(t :: Table) base. tbl_name t = prefix s @ base
              \<and> mysql_engine t = engine \<and> oracle_tablespace (tbl_info t) = tablespace)"
  from makeTables_result [OF run, folded info_def] obtain cols cons t1 t2 t3 t4 where
    t: "catalog_table s ''DiaSource'' engine info = Inr t1"
       "catalog_table s ''SSObject'' engine info = Inr t2"
       "catalog_table s ''DiaForcedSource'' engine info = Inr t3"
       "catalog_table s ''DiaObject_To_Object_Match'' engine info = Inr t4"
    and o: "objects s' = Some \<lparr> tbl_name = prefix s @ ''DiaObject'',
                            tbl_items = map ColumnItem cols @ cons,
                            mysql_engine = engine, tbl_info = info \<rparr>"
    and n: "objects_nightly s' =
          (if dia_object_nightly s
           then Some \<lparr> tbl_name = prefix s @ ''DiaObjectNightly'',
                        tbl_items = map ColumnItem cols,
                        mysql_engine = engine, tbl_info = info \<rparr>
           else objects_nightly s)"
    and l: "if dia_object_index s = ''last_object_table''
        then \<exists>lcols lidx.
               tableColumns s ''DiaObjectLast'' = Inr lcols
             \<and> tableIndices s ''DiaObjectLast'' info = Inr lidx
             \<and> objects_last s' = Some \<lparr> tbl_name = prefix s @ ''DiaObjectLast'',
                   tbl_items = map ColumnItem lcols @ lidx,
                   mysql_engine = engine,
                   tbl_info = \<lparr> oracle_tablespace = tablespace, oracle_iot = Some iot \<rparr> \<rparr>
        else objects_last s' = objects_last s"
    and src: "sources s' = Some t1" and fsrc: "forcedSources s' = Some t3"
    and v: "visits s' = Some \<lparr> tbl_name = prefix s @ ''PpdbProtoVisits'',
                           tbl_items = visits_items (prefix s) info,
                           mysql_engine = engine, tbl_info = info \<rparr>"
    and m: "metadata s' = metadata s
          @ [the (objects s')]
          @ (if dia_object_nightly s then [the (objects_nightly s')] else [])
          @ (if dia_object_index s = ''last_object_table'' then [the (objects_last s')] else [])
          @ [t1, t2, t3, t4, the (visits s')]"
    by blast
  have fo: "fits (the (objects s')) ''DiaObject''"
    by (simp add: fits_def o info_def)
  have fn: "dia_object_nightly s \<Longrightarrow> fits (the (objects_nightly s')) ''DiaObjectNightly''"
    by (simp add: fits_def n info_def)
  have fl: "dia_object_index s = ''last_object_table'' \<Longrightarrow>
      fits (the (objects_last s')) ''DiaObjectLast''"
    using l by (auto simp add: fits_def)
  have ft: "fits t1 ''DiaSource''" "fits t2 ''SSObject''" "fits t3 ''DiaForcedSource''"
    "fits t4 ''DiaObject_To_Object_Match''"
    using t [THEN catalog_table_InrD] by (auto simp add: fits_def info_def)
  have fv: "fits (the (visits s')) ''PpdbProtoVisits''"
    by (simp add: fits_def v info_def)
  have "list_all2 fits (metadata s') (registered_bases (dia_object_index s) (dia_object_nightly s))"
    using fo fn fl ft fv
    by (simp add: m empty registered_bases_def list_all2_appendI)
  then show "list_all2
           (\<lambda>t base. tbl_name t = prefix s @ base
              \<and> mysql_engine t = engine \<and> oracle_tablespace (tbl_info t) = tablespace)
           (metadata s') (registered_bases (dia_object_index s) (dia_object_nightly s))"
    unfolding fits_def .
  have c: "objects s' \<noteq> None" "visits s' \<noteq> None"
    using o v by simp_all
  show "\<forall>attribute \<in> {objects s', sources s', forcedSources s', visits s'}.
           \<exists>t. attribute = Some t \<and> t \<in> set (metadata s')"
  proof -
    have mem: "the (objects s') \<in> set (metadata s')" "t1 \<in> set (metadata s')"
      "t3 \<in> set (metadata s')" "the (visits s') \<in> set (metadata s')"
      by (subst m, simp)+
    with c src fsrc show ?thesis by auto
  qed
  show "if dia_object_nightly s
         then \<exists>t. objects_nightly s' = Some t \<and> t \<in> set (metadata s')
         else objects_nightly s' = objects_nightly s"
  proof (cases "dia_object_nightly s")
    case True
    with n have "objects_nightly s' \<noteq> None" by simp
    moreover from True have "the (objects_nightly s') \<in> set (metadata s')"
      by (subst m) simp
    ultimately show ?thesis using True by auto
  next
    case False
    with n show ?thesis by simp
  qed
  show "if dia_object_index s = ''last_object_table''
         then \<exists>t. objects_last s' = Some t \<and> t \<in> set (metadata s')
         else objects_last s' = objects_last s"
  proof (cases "dia_object_index s = ''last_object_table''")
    case True
    with l have "objects_last s' \<noteq> None" by auto
    moreover from True have "the (objects_last s') \<in> set (metadata s')"
      by (subst m) simp
    ultimately show ?thesis using True by auto
  next
    case False
    with l show ?thesis by simp
  qed
qed

lemma registered_bases_distinct:
  "distinct (map ((@) pfx) (registered_bases index_mode nightly))"
proof -
  have "distinct (registered_bases index_mode nightly)"
    by (simp add: registered_bases_def)
  then show ?thesis
    by (simp add: distinct_map inj_on_def)
qed

lemma list_all2_names:
  "list_all2 (\<lambda>(t :: Table) base. tbl_name t = pfx @ base \<and> Q t) ts bases \<Longrightarrow>
     map tbl_name ts = map ((@) pfx) bases \<and> (\<forall>t \<in> set ts. Q t)"
  by (induction ts bases rule: list_all2_induct) simp_all

lemma makeSchema_Inr:
  assumes "makeSchema drop_first engine tablespace iot (s, db) = Inr (s', db')"
  shows "makeTables engine tablespace iot (s\<lparr> metadata := [] \<rparr>) = Inr s'
     \<and> (\<exists>db1. (if drop_first then drop_all (metadata s') db else Inr db) = Inr db1
            \<and> create_all (metadata s') db1 = Inr db')"
  using assms
  by (auto simp add: makeSchema_def split: sum.splits if_splits)

text \<open>
  C5, as the code has it. \<^verbatim>\<open>makeSchema\<close> never ends in an execution error, and it
  returns exactly when \<^verbatim>\<open>_makeTables\<close> does on the cleared MetaData; what the MetaData
  held before the call does not matter. When it returns, the manager is the one
  \<^verbatim>\<open>_makeTables\<close> builds from the cleared MetaData with the options of this call: the
  registered tables are those of the configuration's base names, each with the engine
  and tablespace passed, and the attributes \<open>objects\<close>, \<open>sources\<close>, \<open>forcedSources\<close> and
  \<open>visits\<close> hold registered tables. With \<open>drop_first\<close> a DROP is executed once for
  each of these tables that the database holds, and none for a table it does not hold.
  After the drops a CREATE is executed once for each of these tables that the database
  does not hold at that point: for every one of them after a drop, and without a drop
  only for those that were missing. Afterwards the database holds all of them. Nothing
  is said about the order of the statements among the tables, which is the library's.
\<close>

theorem C5_makeSchema_rebuild_drop_create:
  "(\<forall>msg. makeSchema drop_first engine tablespace iot (s, db) \<noteq> Inl (ExecutionError msg))
   \<and> ((\<exists>result. makeSchema drop_first engine tablespace iot (s, db) = Inr result)
        \<longleftrightarrow> (\<exists>s1. makeTables engine tablespace iot (s\<lparr> metadata := [] \<rparr>) = Inr s1))
   \<and> makeSchema drop_first engine tablespace iot (s\<lparr> metadata := old \<rparr>, db)
        = makeSchema drop_first engine tablespace iot (s, db)
   \<and> (\<forall>s' db'. makeSchema drop_first engine tablespace iot (s, db) = Inr (s', db') \<longrightarrow>
          makeTables engine tablespace iot (s\<lparr> metadata := [] \<rparr>) = Inr s'
        \<and> list_all2
            (\<lambda>t base. tbl_name t = prefix s @ base
               \<and> mysql_engine t = engine \<and> oracle_tablespace (tbl_info t) = tablespace)
            (metadata s') (registered_bases (dia_object_index s) (dia_object_nightly s))
        \<and> (\<forall>attribute \<in> {objects s', sources s', forcedSources s', visits s'}.
              \<exists>t. attribute = Some t \<and> t \<in> set (metadata s'))
        \<and> existing db' = existing db \<union> tbl_name ` set (metadata s')
        \<and> (\<exists>drops creates.
              executed db' = executed db @ drops @ creates
            \<and> distinct drops \<and> distinct creates
            \<and> set drops =
                (if drop_first
                 then (\<lambda>t. DROP_TABLE (tbl_name t)) `
                        {t \<in> set (metadata s'). tbl_name t \<in> existing db}
                 else {})
            \<and> set creates =
                CREATE_TABLE `
                  {t \<in> set (metadata s'). drop_first \<or> tbl_name t \<notin> existing db}))"
proof -
  let ?cleared = "s\<lparr> metadata := [] \<rparr>"
  \<comment> \<open>what a successful rebuild gives\<close>
  have rebuilt: "\<And>s1. makeTables engine tablespace iot ?cleared = Inr s1 \<Longrightarrow>
      list_all2
            (\<lambda>t base. tbl_name t = prefix s @ base
               \<and> mysql_engine t = engine \<and> oracle_tablespace (tbl_info t) = tablespace)
            (metadata s1) (registered_bases (dia_object_index s) (dia_object_nightly s))
      \<and> (\<forall>attribute \<in> {objects s1, sources s1, forcedSources s1, visits s1}.
              \<exists>t. attribute = Some t \<and> t \<in> set (metadata s1))
      \<and> distinct (map tbl_name (metadata s1))"
  proof -
    fix s1
    assume mk: "makeTables engine tablespace iot ?cleared = Inr s1"
    have e: "metadata ?cleared = []" by simp
    from makeTables_registered(1) [OF mk e]
    have a: "list_all2
            (\<lambda>t base. tbl_name t = prefix s @ base
               \<and> mysql_engine t = engine \<and> oracle_tablespace (tbl_info t) = tablespace)
            (metadata s1) (registered_bases (dia_object_index s) (dia_object_nightly s))"
      by simp
    from makeTables_registered(2) [OF mk e]
    have b: "\<forall>attribute \<in> {objects s1, sources s1, forcedSources s1, visits s1}.
              \<exists>t. attribute = Some t \<and> t \<in> set (metadata s1)" .
    from list_all2_names [OF a]
    have "map tbl_name (metadata s1)
            = map ((@) (prefix s)) (registered_bases (dia_object_index s) (dia_object_nightly s))"
      by simp
    then have c: "distinct (map tbl_name (metadata s1))"
      by (simp only: registered_bases_distinct)
    from a b c show "list_all2
            (\<lambda>t base. tbl_name t = prefix s @ base
               \<and> mysql_engine t = engine \<and> oracle_tablespace (tbl_info t) = tablespace)
            (metadata s1) (registered_bases (dia_object_index s) (dia_object_nightly s))
      \<and> (\<forall>attribute \<in> {objects s1, sources s1, forcedSources s1, visits s1}.
              \<exists>t. attribute = Some t \<and> t \<in> set (metadata s1))
      \<and> distinct (map tbl_name (metadata s1))"
      by (intro conjI)
  qed
  \<comment> \<open>what the two DDL steps give on tables with distinct names\<close>
  have ddl: "\<And>md. distinct (map tbl_name md) \<Longrightarrow>
      \<exists>db1 db2. (if drop_first then drop_all md db else Inr db) = Inr db1
        \<and> create_all md db1 = Inr db2
        \<and> existing db2 = existing db \<union> tbl_name ` set md
        \<and> executed db2 = executed db
             @ (if drop_first
                then map (\<lambda>t. DROP_TABLE (tbl_name t))
                       (filter (\<lambda>t. tbl_name t \<in> existing db) (rev md))
                else [])
             @ map CREATE_TABLE (filter (\<lambda>t. drop_first \<or> tbl_name t \<notin> existing db) md)"
  proof -
    fix md :: "Table list"
    assume d: "distinct (map tbl_name md)"
    show "\<exists>db1 db2. (if drop_first then drop_all md db else Inr db) = Inr db1
        \<and> create_all md db1 = Inr db2
        \<and> existing db2 = existing db \<union> tbl_name ` set md
        \<and> executed db2 = executed db
             @ (if drop_first
                then map (\<lambda>t. DROP_TABLE (tbl_name t))
                       (filter (\<lambda>t. tbl_name t \<in> existing db) (rev md))
                else [])
             @ map CREATE_TABLE (filter (\<lambda>t. drop_first \<or> tbl_name t \<notin> existing db) md)"
    proof (cases drop_first)
      case True
      from d have dr: "distinct (map tbl_name (rev md))"
        by (simp add: rev_map [symmetric])
      from drop_tables_result [OF dr, of db] obtain db1 where
        r1: "drop_tables (rev md) db = Inr db1"
        and e1: "existing db1 = existing db - tbl_name ` set (rev md)"
        and x1: "executed db1 = executed db
            @ map (\<lambda>t. DROP_TABLE (tbl_name t))
                (filter (\<lambda>t. tbl_name t \<in> existing db) (rev md))"
        by blast
      from create_tables_result [OF d, of db1] obtain db2 where
        r2: "create_tables md db1 = Inr db2"
        and e2: "existing db2 = existing db1 \<union> tbl_name ` set md"
        and x2: "executed db2 = executed db1
            @ map CREATE_TABLE (filter (\<lambda>t. tbl_name t \<notin> existing db1) md)"
        by blast
      have all: "filter (\<lambda>t. tbl_name t \<notin> existing db1) md = md"
        by (simp add: filter_id_conv e1)
      have "existing db2 = existing db \<union> tbl_name ` set md"
        by (auto simp add: e2 e1)
      with True r1 r2 x1 x2 all show ?thesis
        by (simp add: drop_all_def create_all_def)
    next
      case False
      from create_tables_result [OF d, of db] obtain db2 where
        r2: "create_tables md db = Inr db2"
        and e2: "existing db2 = existing db \<union> tbl_name ` set md"
        and x2: "executed db2 = executed db
            @ map CREATE_TABLE (filter (\<lambda>t. tbl_name t \<notin> existing db) md)"
        by blast
      with False show ?thesis
        by (simp add: create_all_def)
    qed
  qed
  have never: "\<forall>msg. makeSchema drop_first engine tablespace iot (s, db) \<noteq> Inl (ExecutionError msg)"
  proof
    fix msg
    show "makeSchema drop_first engine tablespace iot (s, db) \<noteq> Inl (ExecutionError msg)"
    proof (cases "makeTables engine tablespace iot ?cleared")
      case (Inl e)
      with makeTables_not_execution [of engine tablespace iot ?cleared msg] show ?thesis
        by (auto simp add: makeSchema_def)
    next
      case (Inr s1)
      from rebuilt [OF Inr] have "distinct (map tbl_name (metadata s1))" by blast
      from ddl [OF this] Inr show ?thesis
        by (auto simp add: makeSchema_def)
    qed
  qed
  have returns: "(\<exists>result. makeSchema drop_first engine tablespace iot (s, db) = Inr result)
        \<longleftrightarrow> (\<exists>s1. makeTables engine tablespace iot ?cleared = Inr s1)"
  proof
    assume "\<exists>result. makeSchema drop_first engine tablespace iot (s, db) = Inr result"
    then show "\<exists>s1. makeTables engine tablespace iot ?cleared = Inr s1"
      by (cases "makeTables engine tablespace iot ?cleared") (auto simp add: makeSchema_def)
  next
    assume "\<exists>s1. makeTables engine tablespace iot ?cleared = Inr s1"
    then obtain s1 where mk: "makeTables engine tablespace iot ?cleared = Inr s1" by blast
    from rebuilt [OF mk] have "distinct (map tbl_name (metadata s1))" by blast
    from ddl [OF this] mk
    show "\<exists>result. makeSchema drop_first engine tablespace iot (s, db) = Inr result"
      by (auto simp add: makeSchema_def)
  qed
  have forgets: "makeSchema drop_first engine tablespace iot (s\<lparr> metadata := old \<rparr>, db)
        = makeSchema drop_first engine tablespace iot (s, db)"
    by (simp add: makeSchema_def)
  have result: "\<forall>s' db'. makeSchema drop_first engine tablespace iot (s, db) = Inr (s', db') \<longrightarrow>
          makeTables engine tablespace iot ?cleared = Inr s'
        \<and> list_all2
            (\<lambda>t base. tbl_name t = prefix s @ base
               \<and> mysql_engine t = engine \<and> oracle_tablespace (tbl_info t) = tablespace)
            (metadata s') (registered_bases (dia_object_index s) (dia_object_nightly s))
        \<and> (\<forall>attribute \<in> {objects s', sources s', forcedSources s', visits s'}.
              \<exists>t. attribute = Some t \<and> t \<in> set (metadata s'))
        \<and> existing db' = existing db \<union> tbl_name ` set (metadata s')
        \<and> (\<exists>drops creates.
              executed db' = executed db @ drops @ creates
            \<and> distinct drops \<and> distinct creates
            \<and> set drops =
                (if drop_first
                 then (\<lambda>t. DROP_TABLE (tbl_name t)) `
                        {t \<in> set (metadata s'). tbl_name t \<in> existing db}
                 else {})
            \<and> set creates =
                CREATE_TABLE `
                  {t \<in> set (metadata s'). drop_first \<or> tbl_name t \<notin> existing db})"
  proof (intro allI impI)
    fix s' db'
    assume run: "makeSchema drop_first engine tablespace iot (s, db) = Inr (s', db')"
    from makeSchema_Inr [OF run] obtain db1 where
      mk: "makeTables engine tablespace iot ?cleared = Inr s'"
      and d1: "(if drop_first then drop_all (metadata s') db else Inr db) = Inr db1"
      and c1: "create_all (metadata s') db1 = Inr db'"
      by blast
    from rebuilt [OF mk] have
      a: "list_all2
            (\<lambda>t base. tbl_name t = prefix s @ base
               \<and> mysql_engine t = engine \<and> oracle_tablespace (tbl_info t) = tablespace)
            (metadata s') (registered_bases (dia_object_index s) (dia_object_nightly s))"
      and b: "\<forall>attribute \<in> {objects s', sources s', forcedSources s', visits s'}.
              \<exists>t. attribute = Some t \<and> t \<in> set (metadata s')"
      and c: "distinct (map tbl_name (metadata s'))"
      by blast+
    from ddl [OF c] d1 c1 have
      e: "existing db' = existing db \<union> tbl_name ` set (metadata s')"
      and x: "executed db' = executed db
             @ (if drop_first
                then map (\<lambda>t. DROP_TABLE (tbl_name t))
                       (filter (\<lambda>t. tbl_name t \<in> existing db) (rev (metadata s')))
                else [])
             @ map CREATE_TABLE
                 (filter (\<lambda>t. drop_first \<or> tbl_name t \<notin> existing db) (metadata s'))"
      by auto
    have dd: "distinct (map (\<lambda>t. DROP_TABLE (tbl_name t))
                 (filter (\<lambda>t. tbl_name t \<in> existing db) (rev (metadata s'))))"
    proof -
      from c have "distinct (map tbl_name (filter (\<lambda>t. tbl_name t \<in> existing db)
                      (rev (metadata s'))))"
        by (simp add: distinct_map_filter rev_map [symmetric])
      then have "distinct (map (DROP_TABLE \<circ> tbl_name)
                   (filter (\<lambda>t. tbl_name t \<in> existing db) (rev (metadata s'))))"
        unfolding map_map [symmetric] by (simp add: distinct_map inj_on_def)
      then show ?thesis by (simp add: comp_def)
    qed
    have dc: "distinct (map CREATE_TABLE
                 (filter (\<lambda>t. drop_first \<or> tbl_name t \<notin> existing db) (metadata s')))"
    proof -
      from c have "distinct (metadata s')" by (simp add: distinct_map)
      then show ?thesis by (simp add: distinct_map inj_on_def)
    qed
    have y: "\<exists>drops creates.
              executed db' = executed db @ drops @ creates
            \<and> distinct drops \<and> distinct creates
            \<and> set drops =
                (if drop_first
                 then (\<lambda>t. DROP_TABLE (tbl_name t)) `
                        {t \<in> set (metadata s'). tbl_name t \<in> existing db}
                 else {})
            \<and> set creates =
                CREATE_TABLE `
                  {t \<in> set (metadata s'). drop_first \<or> tbl_name t \<notin> existing db}"
    proof (intro exI conjI)
      show "executed db' = executed db
             @ (if drop_first
                then map (\<lambda>t. DROP_TABLE (tbl_name t))
                       (filter (\<lambda>t. tbl_name t \<in> existing db) (rev (metadata s')))
                else [])
             @ map CREATE_TABLE
                 (filter (\<lambda>t. drop_first \<or> tbl_name t \<notin> existing db) (metadata s'))"
        by (rule x)
      show "distinct (if drop_first
                then map (\<lambda>t. DROP_TABLE (tbl_name t))
                       (filter (\<lambda>t. tbl_name t \<in> existing db) (rev (metadata s')))
                else [])"
        using dd by simp
      show "distinct (map CREATE_TABLE
                 (filter (\<lambda>t. drop_first \<or> tbl_name t \<notin> existing db) (metadata s')))"
        by (rule dc)
      show "set (if drop_first
                then map (\<lambda>t. DROP_TABLE (tbl_name t))
                       (filter (\<lambda>t. tbl_name t \<in> existing db) (rev (metadata s')))
                else []) =
                (if drop_first
                 then (\<lambda>t. DROP_TABLE (tbl_name t)) `
                        {t \<in> set (metadata s'). tbl_name t \<in> existing db}
                 else {})"
        by auto
      show "set (map CREATE_TABLE
                 (filter (\<lambda>t. drop_first \<or> tbl_name t \<notin> existing db) (metadata s'))) =
                CREATE_TABLE `
                  {t \<in> set (metadata s'). drop_first \<or> tbl_name t \<notin> existing db}"
        by auto
    qed
    from mk a b e y show "makeTables engine tablespace iot ?cleared = Inr s'
        \<and> list_all2
            (\<lambda>t base. tbl_name t = prefix s @ base
               \<and> mysql_engine t = engine \<and> oracle_tablespace (tbl_info t) = tablespace)
            (metadata s') (registered_bases (dia_object_index s) (dia_object_nightly s))
        \<and> (\<forall>attribute \<in> {objects s', sources s', forcedSources s', visits s'}.
              \<exists>t. attribute = Some t \<and> t \<in> set (metadata s'))
        \<and> existing db' = existing db \<union> tbl_name ` set (metadata s')
        \<and> (\<exists>drops creates.
              executed db' = executed db @ drops @ creates
            \<and> distinct drops \<and> distinct creates
            \<and> set drops =
                (if drop_first
                 then (\<lambda>t. DROP_TABLE (tbl_name t)) `
                        {t \<in> set (metadata s'). tbl_name t \<in> existing db}
                 else {})
            \<and> set creates =
                CREATE_TABLE `
                  {t \<in> set (metadata s'). drop_first \<or> tbl_name t \<notin> existing db})"
      by (intro conjI)
  qed
  show ?thesis
    by (rule conjI [OF never conjI [OF returns conjI [OF forgets result]]])
qed

theorem C5_makeSchema_rebuild_drop_create_witness:
  "\<exists>s' db'.
      makeSchema True ''InnoDB'' (Some ''TS1'') True
        (example_self, \<lparr> existing = {}, executed = [] \<rparr>) = Inr (s', db')
    \<and> map tbl_name (metadata s') =
        [''pp_DiaObject'', ''pp_DiaSource'', ''pp_SSObject'', ''pp_DiaForcedSource'',
         ''pp_DiaObject_To_Object_Match'', ''pp_PpdbProtoVisits'']
    \<and> (set (executed db') = CREATE_TABLE ` set (metadata s') \<and> distinct (executed db'))
    \<and> existing db' = tbl_name ` set (metadata s')"
proof -
  have "case makeSchema True ''InnoDB'' (Some ''TS1'') True
               (example_self, \<lparr> existing = {}, executed = [] \<rparr>) of
          Inl e \<Rightarrow> False | Inr result \<Rightarrow> True"
    by code_simp
  then obtain s' db' where
    run: "makeSchema True ''InnoDB'' (Some ''TS1'') True
            (example_self, \<lparr> existing = {}, executed = [] \<rparr>) = Inr (s', db')"
    by (cases "makeSchema True ''InnoDB'' (Some ''TS1'') True
            (example_self, \<lparr> existing = {}, executed = [] \<rparr>)") auto
  note main = C5_makeSchema_rebuild_drop_create [of True "''InnoDB''" "Some ''TS1''" True
      example_self "\<lparr> existing = {}, executed = [] \<rparr>" "[]"]
  from main run have
    tabs: "list_all2
            (\<lambda>t base. tbl_name t = prefix example_self @ base
               \<and> mysql_engine t = ''InnoDB'' \<and> oracle_tablespace (tbl_info t) = Some ''TS1'')
            (metadata s')
            (registered_bases (dia_object_index example_self) (dia_object_nightly example_self))"
    and e: "existing db' = existing \<lparr> existing = {}, executed = [] \<rparr> \<union> tbl_name ` set (metadata s')"
    and x: "\<exists>drops creates.
              executed db' = executed \<lparr> existing = {}, executed = [] \<rparr> @ drops @ creates
            \<and> distinct drops \<and> distinct creates
            \<and> set drops =
                (if True
                 then (\<lambda>t. DROP_TABLE (tbl_name t)) `
                        {t \<in> set (metadata s').
                           tbl_name t \<in> existing \<lparr> existing = {}, executed = [] \<rparr>}
                 else {})
            \<and> set creates =
                CREATE_TABLE `
                  {t \<in> set (metadata s').
                     True \<or> tbl_name t \<notin> existing \<lparr> existing = {}, executed = [] \<rparr>}"
    by blast+
  from list_all2_names [OF tabs]
  have names: "map tbl_name (metadata s') =
        [''pp_DiaObject'', ''pp_DiaSource'', ''pp_SSObject'', ''pp_DiaForcedSource'',
         ''pp_DiaObject_To_Object_Match'', ''pp_PpdbProtoVisits'']"
    by (simp add: example_self_def registered_bases_def)
  from x have stmts: "set (executed db') = CREATE_TABLE ` set (metadata s')
      \<and> distinct (executed db')"
    by auto
  from e have held: "existing db' = tbl_name ` set (metadata s')" by simp
  show ?thesis
    by (rule exI [of _ s'], rule exI [of _ db'])
      (rule conjI [OF run conjI [OF names conjI [OF stmts held]]])
qed

text \<open>
  The claim as it is written fails without a drop: when the database already holds the
  table pp\_DiaObject, the rebuilt mapping has six tables and a CREATE is executed for
  five of them only; the one that exists is left as it is.
\<close>

theorem C5_create_skips_existing_counterexample:
  "case makeSchema False ''InnoDB'' None False
          (example_self, \<lparr> existing = {''pp_DiaObject''}, executed = [] \<rparr>) of
     Inl e \<Rightarrow> False
   | Inr (s', db') \<Rightarrow>
       map tbl_name (metadata s') =
         [''pp_DiaObject'', ''pp_DiaSource'', ''pp_SSObject'', ''pp_DiaForcedSource'',
          ''pp_DiaObject_To_Object_Match'', ''pp_PpdbProtoVisits'']
     \<and> ''pp_DiaObject'' \<notin> set (created_names (executed db'))
     \<and> set (created_names (executed db')) =
         {''pp_DiaSource'', ''pp_SSObject'', ''pp_DiaForcedSource'',
          ''pp_DiaObject_To_Object_Match'', ''pp_PpdbProtoVisits''}"
  by code_simp

end
